theory Spec2Isabelle
  imports Complex_Main "HOL-Library.Word" "HOL-Library.Sublist"
begin

section \<open>JavaScript values\<close>

text \<open>
  The program is \<^verbatim>\<open>src/pages/api/extract-text.js\<close>, one Next.js API route. A Node
  \<^verbatim>\<open>Buffer\<close> is a sequence of bytes; a JavaScript string is a sequence of 16-bit
  UTF-16 code units, and \<^verbatim>\<open>length\<close>, \<^verbatim>\<open>substring\<close>, \<^verbatim>\<open>split\<close> and a regular
  expression without the \<^verbatim>\<open>u\<close> flag all count code units.
\<close>

type_synonym byte = "8 word"
type_synonym code_unit = "16 word"
type_synonym jsstring = "code_unit list"

definition js :: "string \<Rightarrow> jsstring" where
  \<comment> \<open>a string literal of the source (all of them are ASCII)\<close>
  "js s = map of_char s"

text \<open>
  Values as \<^verbatim>\<open>JSON.parse\<close> produces them and as \<^verbatim>\<open>res.json\<close> receives them. An
  object literal is the list of its properties in source order. A number is the rational
  it denotes: the code only ever tests a number parsed from the request for being
  non-zero, and the numbers it creates itself are lengths and counts.
\<close>

datatype jsval =
    JUndefined
  | JNull
  | JBool bool
  | JNum rat
  | JStr jsstring
  | JArr "jsval list"
  | JObj "(jsstring \<times> jsval) list"

fun truthy :: "jsval \<Rightarrow> bool" where
  "truthy JUndefined = False"
| "truthy JNull = False"
| "truthy (JBool b) = b"
| "truthy (JNum r) = (r \<noteq> 0)"
| "truthy (JStr s) = (s \<noteq> [])"
| "truthy (JArr xs) = True"
| "truthy (JObj kvs) = True"

definition or_else :: "jsval \<Rightarrow> jsval \<Rightarrow> jsval" where
  \<comment> \<open>\<^verbatim>\<open>a || b\<close>\<close>
  "or_else a b = (if truthy a then a else b)"

definition obj :: "(string \<times> jsval) list \<Rightarrow> jsval" where
  \<comment> \<open>an object literal \<^verbatim>\<open>{ k1: v1, k2: v2 }\<close>\<close>
  "obj kvs = JObj (map (\<lambda>(k, v). (js k, v)) kvs)"

fun get_prop :: "jsval \<Rightarrow> string \<Rightarrow> jsval" where
  \<comment> \<open>\<^verbatim>\<open>v.k\<close> for a name \<^verbatim>\<open>k\<close> that no prototype defines: the own property, else
     \<^verbatim>\<open>undefined\<close>. (On \<^verbatim>\<open>null\<close> and \<^verbatim>\<open>undefined\<close> the access throws; the
     callers below test for that first.)\<close>
  "get_prop (JObj kvs) k = (case map_of kvs (js k) of Some v \<Rightarrow> v | None \<Rightarrow> JUndefined)"
| "get_prop v k = JUndefined"

datatype fault = TypeError jsstring | Error jsstring

fun message :: "fault \<Rightarrow> jsstring" where
  "message (TypeError m) = m"
| "message (Error m) = m"

fun dec :: "nat \<Rightarrow> jsstring" where
  \<comment> \<open>a non-negative integer in a template literal: its decimal digits\<close>
  "dec n = (if n < 10 then [of_nat (48 + n)] else dec (n div 10) @ [of_nat (48 + n mod 10)])"

declare dec.simps [simp del]

definition startsWith :: "jsstring \<Rightarrow> jsstring \<Rightarrow> bool" where
  "startsWith s p = prefix p s"

fun str_includes :: "jsstring \<Rightarrow> jsstring \<Rightarrow> bool" where
  "str_includes [] p = (p = [])"
| "str_includes (c # cs) p = (prefix p (c # cs) \<or> str_includes cs p)"

definition toLowerCase :: "jsstring \<Rightarrow> jsstring" where
  \<comment> \<open>the ASCII letters only. \<^verbatim>\<open>String.prototype.toLowerCase\<close> also maps letters outside
     ASCII, but its one use below compares the result with the ASCII words of
     \<^verbatim>\<open>ALLOWED_FILE_TYPES\<close>, whose letters are the image of no character outside ASCII,
     so the comparison comes out the same.\<close>
  "toLowerCase s = map (\<lambda>c. if 0x41 \<le> c \<and> c \<le> 0x5A then c + 0x20 else c) s"

section \<open>Buffer.toString\<close>

definition hex_digit :: "nat \<Rightarrow> code_unit" where
  "hex_digit n = (if n < 10 then of_nat (48 + n) else of_nat (87 + n))"

definition hex_byte :: "byte \<Rightarrow> jsstring" where
  "hex_byte b = [hex_digit (unat b div 16), hex_digit (unat b mod 16)]"

definition Buffer_toString_hex :: "byte list \<Rightarrow> nat \<Rightarrow> nat \<Rightarrow> jsstring" where
  \<comment> \<open>\<^verbatim>\<open>buffer.toString('hex', start, end)\<close>: two lower-case digits for each byte of the
     slice, which ends at the end of the buffer when that comes first\<close>
  "Buffer_toString_hex buffer start end = concat (map hex_byte (take (end - start) (drop start buffer)))"

text \<open>
  \<^verbatim>\<open>buffer.toString('utf8')\<close> accepts every byte sequence: each maximal ill-formed part
  of the input becomes one U+FFFD, as in the decoder of the WHATWG Encoding Standard, which
  the function below follows state for state (with the count of bytes still expected in
  place of the standard's two counters). A byte-order mark is kept. A code point above
  U+FFFF is two code units of the string. The only failure is a buffer too long for a
  string.
\<close>

record utf8_state =
  code_point :: nat
  bytes_needed :: nat
  lower_boundary :: nat
  upper_boundary :: nat

definition utf8_initial :: utf8_state where
  "utf8_initial = \<lparr>code_point = 0, bytes_needed = 0, lower_boundary = 0x80, upper_boundary = 0xBF\<rparr>"

definition utf16 :: "nat \<Rightarrow> jsstring" where
  "utf16 cp =
     (if cp < 0x10000 then [of_nat cp]
      else [of_nat (0xD800 + (cp - 0x10000) div 0x400), of_nat (0xDC00 + (cp - 0x10000) mod 0x400)])"

definition utf8_lead :: "nat \<Rightarrow> jsstring \<times> utf8_state" where
  \<comment> \<open>a byte read while no sequence is open: what it emits and the state after it\<close>
  "utf8_lead b =
     (if b \<le> 0x7F then ([of_nat b], utf8_initial)
      else if 0xC2 \<le> b \<and> b \<le> 0xDF then
        ([], \<lparr>code_point = b mod 0x20, bytes_needed = 1, lower_boundary = 0x80, upper_boundary = 0xBF\<rparr>)
      else if 0xE0 \<le> b \<and> b \<le> 0xEF then
        ([], \<lparr>code_point = b mod 0x10, bytes_needed = 2,
              lower_boundary = (if b = 0xE0 then 0xA0 else 0x80),
              upper_boundary = (if b = 0xED then 0x9F else 0xBF)\<rparr>)
      else if 0xF0 \<le> b \<and> b \<le> 0xF4 then
        ([], \<lparr>code_point = b mod 0x08, bytes_needed = 3,
              lower_boundary = (if b = 0xF0 then 0x90 else 0x80),
              upper_boundary = (if b = 0xF4 then 0x8F else 0xBF)\<rparr>)
      else ([0xFFFD], utf8_initial))"

fun utf8_decode :: "utf8_state \<Rightarrow> byte list \<Rightarrow> jsstring" where
  "utf8_decode st [] = (if bytes_needed st \<noteq> 0 then [0xFFFD] else [])"
| "utf8_decode st (b # bs) =
     (if bytes_needed st = 0 then
        fst (utf8_lead (unat b)) @ utf8_decode (snd (utf8_lead (unat b))) bs
      else if unat b < lower_boundary st \<or> upper_boundary st < unat b then
        0xFFFD # fst (utf8_lead (unat b)) @ utf8_decode (snd (utf8_lead (unat b))) bs
      else if bytes_needed st = 1 then
        utf16 (code_point st * 0x40 + unat b mod 0x40) @ utf8_decode utf8_initial bs
      else
        utf8_decode \<lparr>code_point = code_point st * 0x40 + unat b mod 0x40,
                     bytes_needed = bytes_needed st - 1,
                     lower_boundary = 0x80, upper_boundary = 0xBF\<rparr> bs)"

definition utf8_text :: "byte list \<Rightarrow> jsstring" where
  \<comment> \<open>the bytes decoded as UTF-8\<close>
  "utf8_text bytes = utf8_decode utf8_initial bytes"

definition MAX_STRING_LENGTH :: nat where
  \<comment> \<open>\<^verbatim>\<open>buffer.constants.MAX_STRING_LENGTH\<close> on a 64-bit platform, \<^verbatim>\<open>0x1fffffe8\<close>\<close>
  "MAX_STRING_LENGTH = 536870888"

definition Buffer_toString_utf8 :: "byte list \<Rightarrow> fault + jsstring" where
  \<comment> \<open>\<^verbatim>\<open>buffer.toString('utf8')\<close>, and \<^verbatim>\<open>buffer.toString('utf8', 0, n)\<close> on the first
     \<^verbatim>\<open>n\<close> bytes: it throws when asked for more bytes than a string can have code units\<close>
  "Buffer_toString_utf8 bytes =
     (if length bytes > MAX_STRING_LENGTH then
        Inl (Error (js ''Cannot create a string longer than 0x1fffffe8 characters''))
      else Inr (utf8_text bytes))"

section \<open>path.extname\<close>

text \<open>
  \<^verbatim>\<open>path.extname\<close> of Node on a POSIX platform: one pass over the string from its last
  code unit to its first, as in Node's \<^verbatim>\<open>lib/path.js\<close>. An argument that is not a string
  is refused with a \<^verbatim>\<open>TypeError\<close> (Node's message goes on to describe the value it
  received).
\<close>

record extname_state =
  startDot :: int
  startPart :: int
  end' :: int
  matchedSlash :: bool
  preDotState :: int

fun extname_loop :: "jsstring \<Rightarrow> nat \<Rightarrow> extname_state \<Rightarrow> extname_state" where
  "extname_loop path 0 st = st"
| "extname_loop path (Suc i) st =
     (let code = path ! i in
      if code = 0x2F then
        (if \<not> matchedSlash st then st\<lparr>startPart := int i + 1\<rparr>
         else extname_loop path i st)
      else
        let st1 = (if end' st = - 1 then st\<lparr>matchedSlash := False, end' := int i + 1\<rparr> else st);
            st2 = (if code = 0x2E then
                     (if startDot st1 = - 1 then st1\<lparr>startDot := int i\<rparr>
                      else if preDotState st1 \<noteq> 1 then st1\<lparr>preDotState := 1\<rparr>
                      else st1)
                   else if startDot st1 \<noteq> - 1 then st1\<lparr>preDotState := - 1\<rparr>
                   else st1)
        in extname_loop path i st2)"

definition extname_string :: "jsstring \<Rightarrow> jsstring" where
  "extname_string path =
     (let st = extname_loop path (length path)
                 \<lparr>startDot = - 1, startPart = 0, end' = - 1, matchedSlash = True, preDotState = 0\<rparr>
      in if startDot st = - 1 \<or> end' st = - 1 \<or> preDotState st = 0 \<or>
            (preDotState st = 1 \<and> startDot st = end' st - 1 \<and> startDot st = startPart st + 1)
         then []
         else take (nat (end' st) - nat (startDot st)) (drop (nat (startDot st)) path))"

fun path_extname :: "jsval \<Rightarrow> fault + jsstring" where
  "path_extname (JStr path) = Inr (extname_string path)"
| "path_extname v = Inl (TypeError (js ''The \"path\" argument must be of type string''))"

section \<open>Configuration\<close>

definition MAX_FILE_SIZE :: nat where
  "MAX_FILE_SIZE = 50 * 1024 * 1024"

definition ALLOWED_FILE_TYPES :: "jsstring list" where
  "ALLOWED_FILE_TYPES = map js [''pdf'', ''txt'', ''html'', ''htm'', ''doc'', ''docx'']"

definition MAX_TEXT_LENGTH :: nat where
  "MAX_TEXT_LENGTH = 50000"

definition MAGIC_PNG :: jsstring where "MAGIC_PNG = js ''89504e47''"
definition MAGIC_JPEG :: jsstring where "MAGIC_JPEG = js ''ffd8''"
definition MAGIC_PDF :: jsstring where "MAGIC_PDF = js ''25504446''"
definition MAGIC_DOC :: jsstring where "MAGIC_DOC = js ''d0cf11e0''"
definition MAGIC_ZIP :: jsstring where "MAGIC_ZIP = js ''504b0304''"

section \<open>detectFileType\<close>

definition printable :: "code_unit \<Rightarrow> bool" where
  \<comment> \<open>the class \<^verbatim>\<open>[\x20-\x7E\n\r\t]\<close>, whose complement the text heuristic deletes\<close>
  "printable c = ((0x20 \<le> c \<and> c \<le> 0x7E) \<or> c = 0x0A \<or> c = 0x0D \<or> c = 0x09)"

definition js_divide :: "nat \<Rightarrow> nat \<Rightarrow> rat option" where
  \<comment> \<open>the quotient of two lengths; \<^verbatim>\<open>0 / 0\<close> is \<^verbatim>\<open>NaN\<close>, here \<open>None\<close> (a non-zero length
     is never divided by zero below: the dividend is at most the divisor)\<close>
  "js_divide a b = (if b = 0 then None else Some (of_nat a / of_nat b))"

definition js_greater :: "rat option \<Rightarrow> rat \<Rightarrow> bool" where
  \<comment> \<open>\<^verbatim>\<open>x > c\<close>: false when \<^verbatim>\<open>x\<close> is \<^verbatim>\<open>NaN\<close>. The quotient of two string lengths and
     \<^verbatim>\<open>0.8\<close> compare as doubles the way they compare as rationals: a quotient above 4/5
     exceeds it by at least 1/(5 * length), far more than the rounding of either side.\<close>
  "js_greater x c = (case x of None \<Rightarrow> False | Some q \<Rightarrow> q > c)"

definition extension_fallback :: "jsval \<Rightarrow> fault + jsstring" where
  \<comment> \<open>the end of \<^verbatim>\<open>detectFileType\<close>, from \<^verbatim>\<open>// Fallback to extension\<close> on\<close>
  "extension_fallback fileName =
     (if truthy fileName then
        (case path_extname fileName of
           Inl e \<Rightarrow> Inl e
         | Inr e \<Rightarrow>
             let ext = drop 1 (toLowerCase e) in
             if ext \<in> set ALLOWED_FILE_TYPES then Inr ext else Inr (js ''unknown''))
      else Inr (js ''unknown''))"

definition detectFileType :: "byte list \<Rightarrow> jsval \<Rightarrow> fault + jsstring" where
  \<comment> \<open>\<open>Inl\<close>: an exception leaves the function, which only \<^verbatim>\<open>path.extname\<close> can
     cause; what \<^verbatim>\<open>toString\<close> throws is caught and ignored\<close>
  "detectFileType buffer fileName =
     (let magic = Buffer_toString_hex buffer 0 8 in
      if startsWith magic MAGIC_PDF then Inr (js ''pdf'')
      else if startsWith magic MAGIC_PNG \<or> startsWith magic MAGIC_JPEG then Inr (js ''image'')
      else if startsWith magic MAGIC_DOC \<or> startsWith magic MAGIC_ZIP then Inr (js ''document'')
      else
        (case Buffer_toString_utf8 buffer of
           Inl e \<Rightarrow> extension_fallback fileName
         | Inr text \<Rightarrow>
             let nullBytes = str_includes text [0];
                 printableRatio = js_divide (length (filter printable text)) (length text)
             in
             if \<not> nullBytes \<and> js_greater printableRatio (8 / 10) then Inr (js ''text'')
             else extension_fallback fileName))"

section \<open>processBuffer\<close>

definition printable_preview :: "code_unit \<Rightarrow> bool" where
  \<comment> \<open>the class \<^verbatim>\<open>[\x20-\x7E\n\r]\<close> of the PDF preview (no tab)\<close>
  "printable_preview c = ((0x20 \<le> c \<and> c \<le> 0x7E) \<or> c = 0x0A \<or> c = 0x0D)"

fun str_split :: "code_unit \<Rightarrow> jsstring \<Rightarrow> jsstring list" where
  \<comment> \<open>\<^verbatim>\<open>text.split(sep)\<close> for a separator of one code unit\<close>
  "str_split sep [] = [[]]"
| "str_split sep (c # cs) =
     (let r = str_split sep cs in if c = sep then [] # r else (c # hd r) # tl r)"

definition case_pdf_body :: "jsstring \<Rightarrow> jsval \<Rightarrow> nat \<Rightarrow> jsval" where
  \<comment> \<open>the case \<^verbatim>\<open>'pdf'\<close> once the first 1000 bytes have been decoded\<close>
  "case_pdf_body decoded fileName fileSize =
     (let textPreview = filter printable_preview decoded in
      obj [(''success'', JBool True),
           (''type'', JStr (js ''pdf'')),
           (''fileName'', or_else fileName (JStr (js ''document.pdf''))),
           (''text'', JStr (js ''PDF file detected. For enhanced text extraction with OCR and formatting preservation, use the dedicated resume parser service.''
                          @ [0x0A, 0x0A] @ js ''Preview (first 1000 bytes):'' @ [0x0A] @ textPreview)),
           (''metadata'', obj [(''fileSize'', JNum (of_nat fileSize)),
                               (''pages'', JNum 1),
                               (''textPreviewLength'', JNum (of_nat (length textPreview)))]),
           (''hint'', JStr (js ''Upgrade to full PDF parsing service for complete text extraction''))])"

definition case_pdf :: "byte list \<Rightarrow> jsval \<Rightarrow> nat \<Rightarrow> jsval" where
  "case_pdf buffer fileName fileSize =
     (case Buffer_toString_utf8 (take 1000 buffer) of
        Inl e \<Rightarrow>
          obj [(''success'', JBool False),
               (''error'', JStr (js ''PDF processing error'')),
               (''type'', JStr (js ''pdf''))]
      | Inr decoded \<Rightarrow> case_pdf_body decoded fileName fileSize)"

definition truncation_notice :: jsstring where
  "truncation_notice = [0x0A, 0x0A] @ js ''[Content truncated due to size limits]''"

definition case_text_body :: "jsstring \<Rightarrow> jsval \<Rightarrow> jsstring \<Rightarrow> nat \<Rightarrow> jsval" where
  \<comment> \<open>the shared body of the cases \<^verbatim>\<open>'text'\<close>, \<^verbatim>\<open>'txt'\<close>, \<^verbatim>\<open>'html'\<close> and \<^verbatim>\<open>'htm'\<close>, once
     \<^verbatim>\<open>text\<close> has been decoded\<close>
  "case_text_body text fileName fileType fileSize =
     (if length text > MAX_TEXT_LENGTH then
        obj [(''success'', JBool True),
             (''type'', JStr fileType),
             (''fileName'', or_else fileName (JStr (js ''text.txt''))),
             (''text'', JStr (take MAX_TEXT_LENGTH text @ truncation_notice)),
             (''truncated'', JBool True),
             (''originalLength'', JNum (of_nat (length text))),
             (''extractedLength'', JNum (of_nat MAX_TEXT_LENGTH))]
      else
        obj [(''success'', JBool True),
             (''type'', JStr fileType),
             (''fileName'', or_else fileName (JStr (js ''text.txt''))),
             (''text'', JStr text),
             (''metadata'', obj [(''fileSize'', JNum (of_nat fileSize)),
                                 (''textLength'', JNum (of_nat (length text))),
                                 (''lines'', JNum (of_nat (length (str_split 0x0A text))))])])"

definition case_text :: "byte list \<Rightarrow> jsval \<Rightarrow> jsstring \<Rightarrow> nat \<Rightarrow> jsval" where
  "case_text buffer fileName fileType fileSize =
     (case Buffer_toString_utf8 buffer of
        Inl e \<Rightarrow>
          obj [(''success'', JBool False),
               (''error'', JStr (js ''Text decoding error'')),
               (''type'', JStr fileType)]
      | Inr text \<Rightarrow> case_text_body text fileName fileType fileSize)"

definition case_image :: jsval where
  "case_image =
     obj [(''success'', JBool False),
          (''error'', JStr (js ''Image files not supported. OCR service required.'')),
          (''type'', JStr (js ''image'')),
          (''hint'', JStr (js ''Convert image to PDF or text first, or enable OCR capabilities''))]"

definition case_document :: jsval where
  "case_document =
     obj [(''success'', JBool False),
          (''error'', JStr (js ''Document processing requires additional services'')),
          (''type'', JStr (js ''document'')),
          (''hint'', JStr (js ''Supported formats: PDF, TXT, HTML. Convert DOC/DOCX to PDF first.''))]"

definition case_default :: jsval where
  "case_default =
     obj [(''success'', JBool False),
          (''error'', JStr (js ''Unsupported file type'')),
          (''type'', JStr (js ''unknown'')),
          (''allowedTypes'', JArr (map JStr ALLOWED_FILE_TYPES))]"

definition file_too_large :: "nat \<Rightarrow> jsstring \<Rightarrow> jsval" where
  \<comment> \<open>the result of the size check of \<^verbatim>\<open>processBuffer\<close>\<close>
  "file_too_large fileSize fileType =
     obj [(''success'', JBool False),
          (''error'', JStr (js ''File too large: '' @ dec fileSize @ js '' bytes (max: ''
                           @ dec MAX_FILE_SIZE @ js '' bytes)'')),
          (''type'', JStr fileType)]"

definition dispatch :: "jsstring \<Rightarrow> byte list \<Rightarrow> jsval \<Rightarrow> nat \<Rightarrow> jsval" where
  \<comment> \<open>the \<^verbatim>\<open>switch (fileType)\<close>\<close>
  "dispatch fileType buffer fileName fileSize =
     (if fileType = js ''pdf'' then case_pdf buffer fileName fileSize
      else if fileType = js ''text'' \<or> fileType = js ''txt'' \<or> fileType = js ''html''
              \<or> fileType = js ''htm'' then case_text buffer fileName fileType fileSize
      else if fileType = js ''image'' then case_image
      else if fileType = js ''document'' then case_document
      else case_default)"

definition processBuffer :: "byte list \<Rightarrow> jsval \<Rightarrow> fault + jsval" where
  \<comment> \<open>\<open>Inl\<close>: the promise is rejected, which only \<^verbatim>\<open>detectFileType\<close> can cause\<close>
  "processBuffer buffer fileName =
     (case detectFileType buffer fileName of
        Inl e \<Rightarrow> Inl e
      | Inr fileType \<Rightarrow>
          let fileSize = length buffer in
          if fileSize > MAX_FILE_SIZE then Inr (file_too_large fileSize fileType)
          else Inr (dispatch fileType buffer fileName fileSize))"

section \<open>downloadFileFromUrl\<close>

text \<open>
  What the network does is an input of the model. \<^verbatim>\<open>https.get\<close> either throws at once
  (for a URL it does not accept), or its request emits \<^verbatim>\<open>error\<close> or \<^verbatim>\<open>timeout\<close>
  (30 seconds without traffic) before any response, or the response arrives with a status
  code, a status message and chunks of data, and the stream then ends, fails or times out.
  The promise settles once, at the first \<^verbatim>\<open>resolve\<close> or \<^verbatim>\<open>reject\<close>. The result of
  \<^verbatim>\<open>new URL(url).protocol\<close> is an input as well: \<open>None\<close> when the constructor throws.
\<close>

datatype stream_end = End | StreamError fault | StreamTimeout

datatype net_outcome =
    RequestThrows fault
  | RequestError fault
  | RequestTimeout
  | Response nat jsstring "byte list list" stream_end

fun receive :: "byte list list \<Rightarrow> byte list list \<Rightarrow> nat \<Rightarrow> stream_end \<Rightarrow> fault + byte list" where
  \<comment> \<open>the \<^verbatim>\<open>data\<close> events in order, then the event that ends the stream\<close>
  "receive [] chunks totalSize fin =
     (case fin of
        End \<Rightarrow> Inr (concat chunks)
      | StreamError e \<Rightarrow> Inl e
      | StreamTimeout \<Rightarrow> Inl (Error (js ''Request timeout'')))"
| "receive (chunk # rest) chunks totalSize fin =
     (if totalSize + length chunk > MAX_FILE_SIZE then
        Inl (Error (js ''File too large: '' @ dec (totalSize + length chunk) @ js '' bytes''))
      else receive rest (chunks @ [chunk]) (totalSize + length chunk) fin)"

definition downloadFileFromUrl :: "jsstring option \<Rightarrow> net_outcome \<Rightarrow> fault + byte list" where
  \<comment> \<open>\<open>Inl\<close>: the promise is rejected; \<open>Inr\<close>: it is resolved with the buffer\<close>
  "downloadFileFromUrl protocol net =
     (case protocol of
        None \<Rightarrow> Inl (TypeError (js ''Invalid URL''))
      | Some p \<Rightarrow>
          if \<not> (p = js ''http:'' \<or> p = js ''https:'') then Inl (Error (js ''Invalid URL protocol''))
          else
            (case net of
               RequestThrows e \<Rightarrow> Inl e
             | RequestError e \<Rightarrow> Inl e
             | RequestTimeout \<Rightarrow> Inl (Error (js ''Request timeout''))
             | Response statusCode statusMessage chunks fin \<Rightarrow>
                 if statusCode \<noteq> 200 then
                   Inl (Error (js ''HTTP '' @ dec statusCode @ js '': '' @ statusMessage))
                 else receive chunks [] 0 fin))"

section \<open>The request handler\<close>

text \<open>
  The request as the handler reads it, and the rest of the world as it answers during
  the request: the clock, the process environment, and the outcome of every library call
  whose result the source does not determine (\<^verbatim>\<open>formidable\<close>, reading and parsing the
  JSON body, \<^verbatim>\<open>new URL\<close>, \<^verbatim>\<open>https.get\<close>, \<^verbatim>\<open>path.basename\<close>, \<^verbatim>\<open>Buffer.from\<close>). The
  response headers (security and CORS) and the log line are left out: they do not touch
  the status or the body.
\<close>

record request =
  http_method :: jsstring
  x_forwarded_for :: "jsstring option"
  remoteAddress :: "jsstring option"
  x_api_key :: "jsstring option"
  authorization :: "jsstring option"
  content_type :: "jsstring option"

record uploaded =
  content :: "fault + byte list"
  originalFilename :: jsval

datatype multipart_outcome =
    ParseThrows fault
  | Files "uploaded list" "uploaded list" "uploaded list"

datatype body_outcome = ReadThrows fault | InvalidJSON | Parsed jsval

record world =
  clock_start :: int
  clock_rate :: int
  clock_end :: int
  REQUIRE_API_KEY :: bool
  development :: bool
  upload :: multipart_outcome
  json_body :: body_outcome
  url_protocol :: "jsstring option"
  network :: net_outcome
  url_basename :: "fault + jsstring"
  string_bytes :: "byte list"
  arraylike_bytes :: "fault + byte list"

type_synonym store = "jsstring \<Rightarrow> int list option"

definition str_or :: "jsstring option \<Rightarrow> jsstring \<Rightarrow> jsstring" where
  \<comment> \<open>\<^verbatim>\<open>a || b\<close> for a header that is a string or \<^verbatim>\<open>undefined\<close>\<close>
  "str_or a b = (case a of None \<Rightarrow> b | Some s \<Rightarrow> if s = [] then b else s)"

fun str_replace :: "jsstring \<Rightarrow> jsstring \<Rightarrow> jsstring \<Rightarrow> jsstring" where
  \<comment> \<open>\<^verbatim>\<open>s.replace(pat, rep)\<close> for a string pattern: the first occurrence only\<close>
  "str_replace [] pat rep = (if pat = [] then rep else [])"
| "str_replace (c # cs) pat rep =
     (if prefix pat (c # cs) then rep @ drop (length pat) (c # cs)
      else c # str_replace cs pat rep)"

definition RATE_LIMIT_WINDOW_MS :: int where
  "RATE_LIMIT_WINDOW_MS = 60000"

definition RATE_LIMIT_MAX_REQUESTS :: nat where
  "RATE_LIMIT_MAX_REQUESTS = 100"

definition rateLimit :: "request \<Rightarrow> int \<Rightarrow> store \<Rightarrow> jsval option \<times> store" where
  \<comment> \<open>\<open>Some b\<close>: the 429 response with body \<open>b\<close> was sent and \<^verbatim>\<open>false\<close> returned\<close>
  "rateLimit req now rateLimitStore =
     (let clientIP = str_or (x_forwarded_for req) (str_or (remoteAddress req) (js ''unknown''));
          windowStart = now - RATE_LIMIT_WINDOW_MS;
          cleaned = (\<lambda>ip. map_option (filter (\<lambda>timestamp. timestamp > windowStart)) (rateLimitStore ip));
          clientTimestamps = (case cleaned clientIP of None \<Rightarrow> [] | Some ts \<Rightarrow> ts);
          requestsInWindow = length clientTimestamps
      in
      if requestsInWindow \<ge> RATE_LIMIT_MAX_REQUESTS then
        (Some (obj [(''error'', JStr (js ''Rate limit exceeded'')),
                    (''retryAfter'',
                     JNum (of_int (- ((- (hd clientTimestamps + RATE_LIMIT_WINDOW_MS - now)) div 1000))))]),
         cleaned)
      else (None, cleaned(clientIP \<mapsto> clientTimestamps @ [now])))"

definition authenticateAPIKey :: "request \<Rightarrow> bool \<Rightarrow> jsval" where
  "authenticateAPIKey req requireAuth =
     (let apiKey = (case x_api_key req of
                      Some k \<Rightarrow> if k \<noteq> [] then Some k
                                else map_option (\<lambda>a. str_replace a (js ''Bearer '') []) (authorization req)
                    | None \<Rightarrow> map_option (\<lambda>a. str_replace a (js ''Bearer '') []) (authorization req))
      in
      if requireAuth \<and> (apiKey = None \<or> apiKey = Some []) then
        obj [(''valid'', JBool False), (''error'', JStr (js ''API key required''))]
      else obj [(''valid'', JBool True)])"

fun Buffer_from :: "world \<Rightarrow> jsval \<Rightarrow> fault + byte list" where
  \<comment> \<open>\<^verbatim>\<open>Buffer.from(value)\<close> and \<^verbatim>\<open>Buffer.from(value, 'base64')\<close>. A string is always
     decoded to some bytes; an array or an object is converted or refused, as the library
     decides; every other value is refused.\<close>
  "Buffer_from w (JStr s) = Inr (string_bytes w)"
| "Buffer_from w (JArr xs) = arraylike_bytes w"
| "Buffer_from w (JObj kvs) = arraylike_bytes w"
| "Buffer_from w v =
     Inl (TypeError (js ''The first argument must be of type string or an instance of Buffer, ArrayBuffer, or Array or an Array-like Object.''))"

datatype step = Throws fault | Responds nat jsval | Intake "byte list" jsval

definition first_file :: "uploaded list \<Rightarrow> uploaded list \<Rightarrow> uploaded list \<Rightarrow> uploaded option" where
  \<comment> \<open>\<^verbatim>\<open>files.file?.[0] || files.resume?.[0] || files.document?.[0]\<close>; a field that is
     absent is the empty list\<close>
  "first_file file resume document =
     (case file of f # fs \<Rightarrow> Some f | [] \<Rightarrow>
        (case resume of f # fs \<Rightarrow> Some f | [] \<Rightarrow>
           (case document of f # fs \<Rightarrow> Some f | [] \<Rightarrow> None)))"

definition multipart_intake :: "world \<Rightarrow> step" where
  "multipart_intake w =
     (case upload w of
        ParseThrows e \<Rightarrow> Throws e
      | Files file resume document \<Rightarrow>
          (case first_file file resume document of
             None \<Rightarrow>
               Responds 400 (obj [(''error'',
                 JStr (js ''No file uploaded. Supported fields: 'file', 'resume', 'document'' @ [0x27]))])
           | Some uploadedFile \<Rightarrow>
               (case content uploadedFile of
                  Inl e \<Rightarrow> Throws e
                | Inr buffer \<Rightarrow> Intake buffer (originalFilename uploadedFile))))"

definition json_intake :: "world \<Rightarrow> jsval \<Rightarrow> step" where
  \<comment> \<open>the dispatch on the keys of the parsed body. Reading a property of \<^verbatim>\<open>null\<close> throws,
     and no \<^verbatim>\<open>try\<close> but the outermost one is around that first read.\<close>
  "json_intake w body =
     (if body = JNull then
        Throws (TypeError (js ''Cannot read properties of null (reading 'fileUrl')''))
      else if truthy (get_prop body ''fileUrl'') then
        (case downloadFileFromUrl (url_protocol w) (network w) of
           Inl e \<Rightarrow> Responds 400 (obj [(''error'', JStr (js ''URL download failed: '' @ message e))])
         | Inr buffer \<Rightarrow>
             (case url_basename w of
                Inl e \<Rightarrow> Responds 400 (obj [(''error'', JStr (js ''URL download failed: '' @ message e))])
              | Inr fileName \<Rightarrow> Intake buffer (JStr fileName)))
      else if truthy (get_prop body ''fileBase64'') then
        (case Buffer_from w (get_prop body ''fileBase64'') of
           Inl e \<Rightarrow> Responds 400 (obj [(''error'', JStr (js ''Invalid base64 encoding''))])
         | Inr buffer \<Rightarrow> Intake buffer (or_else (get_prop body ''fileName'') (JStr (js ''uploaded_file''))))
      else if truthy (get_prop body ''binaryData'') then
        (case Buffer_from w (get_prop (get_prop body ''binaryData'') ''data'') of
           Inl e \<Rightarrow> Responds 400 (obj [(''error'', JStr (js ''Invalid binary data''))])
         | Inr buffer \<Rightarrow> Intake buffer (or_else (get_prop body ''fileName'') (JStr (js ''n8n_upload''))))
      else
        Responds 400 (obj [(''error'',
          JStr (js ''Missing file data. Provide fileUrl, fileBase64, or binaryData''))]))"

definition intake :: "request \<Rightarrow> world \<Rightarrow> step" where
  "intake req w =
     (let contentType = str_or (content_type req) [] in
      if str_includes contentType (js ''multipart/form-data'') then multipart_intake w
      else
        (case json_body w of
           ReadThrows e \<Rightarrow> Throws e
         | InvalidJSON \<Rightarrow> Responds 400 (obj [(''error'', JStr (js ''Invalid JSON body''))])
         | Parsed b \<Rightarrow> json_intake w b))"

definition number_string :: "int \<Rightarrow> jsstring" where
  \<comment> \<open>an integer joined to a string\<close>
  "number_string i = (if i < 0 then 0x2D # dec (nat (- i)) else dec (nat i))"

definition respond :: "jsval \<Rightarrow> int \<Rightarrow> int \<Rightarrow> nat \<times> jsval" where
  \<comment> \<open>the two \<^verbatim>\<open>res.status(...).json(...)\<close> calls that follow \<^verbatim>\<open>processBuffer\<close>. A
     property whose value is \<open>JUndefined\<close> is absent from the JSON text that is sent.\<close>
  "respond result startTime now =
     (if truthy (get_prop result ''success'') then
        (200, obj [(''success'', JBool True),
                   (''data'', obj [(''extractedText'', get_prop result ''text''),
                                   (''fileName'', get_prop result ''fileName''),
                                   (''fileType'', get_prop result ''type''),
                                   (''metadata'', or_else (get_prop result ''metadata'') (JObj [])),
                                   (''truncated'', or_else (get_prop result ''truncated'') (JBool False))]),
                   (''executionTime'', JStr (number_string (now - startTime) @ js ''ms''))])
      else
        (400, obj [(''success'', JBool False),
                   (''error'', obj [(''message'', get_prop result ''error''),
                                    (''type'', get_prop result ''type''),
                                    (''hint'', get_prop result ''hint''),
                                    (''allowedTypes'', get_prop result ''allowedTypes'')]),
                   (''executionTime'', JStr (number_string (now - startTime) @ js ''ms''))]))"

definition process_request :: "request \<Rightarrow> world \<Rightarrow> fault + nat \<times> jsval" where
  \<comment> \<open>the \<^verbatim>\<open>try\<close> block of the handler: \<open>Inl\<close> is an exception that reaches its
     \<^verbatim>\<open>catch\<close>, \<open>Inr\<close> the status and body of the response it sends\<close>
  "process_request req w =
     (case intake req w of
        Throws e \<Rightarrow> Inl e
      | Responds status b \<Rightarrow> Inr (status, b)
      | Intake buffer fileName \<Rightarrow>
          (case processBuffer buffer fileName of
             Inl e \<Rightarrow> Inl e
           | Inr result \<Rightarrow> Inr (respond result (clock_start w) (clock_end w))))"

definition handler :: "request \<Rightarrow> world \<Rightarrow> store \<Rightarrow> (nat \<times> jsval option) \<times> store" where
  \<comment> \<open>the status and the JSON body of the response (no body for \<^verbatim>\<open>OPTIONS\<close>), and the
     rate-limit store after the request\<close>
  "handler req w rateLimitStore =
     (if http_method req = js ''OPTIONS'' then ((200, None), rateLimitStore)
      else if http_method req \<noteq> js ''POST'' then
        ((405, Some (obj [(''error'', JStr (js ''Method not allowed. Only POST requests accepted.''))])),
         rateLimitStore)
      else
        (case rateLimit req (clock_rate w) rateLimitStore of
           (Some limited, store1) \<Rightarrow> ((429, Some limited), store1)
         | (None, store1) \<Rightarrow>
             let authResult = authenticateAPIKey req (REQUIRE_API_KEY w) in
             if \<not> truthy (get_prop authResult ''valid'') then
               ((401, Some (obj [(''error'', get_prop authResult ''error'')])), store1)
             else
               (case process_request req w of
                  Inl e \<Rightarrow>
                    ((500, Some (obj [(''success'', JBool False),
                                      (''error'', JStr (js ''Internal server error'')),
                                      (''details'', if development w then JStr (message e) else JUndefined)])),
                     store1)
                | Inr (status, b) \<Rightarrow> ((status, Some b), store1))))"

section \<open>The same code with the buffer in a store\<close>

text \<open>
  To say that the code leaves the buffer alone, the buffer has to be somewhere. Here a
  \<^verbatim>\<open>Buffer\<close> is an address in a store of byte sequences, and \<^verbatim>\<open>detectFileType\<close> and
  \<^verbatim>\<open>processBuffer\<close> are written once more with the store passed through every operation
  they perform on the buffer, in the order of the source. Those operations are
  \<^verbatim>\<open>buffer.toString\<close> and \<^verbatim>\<open>buffer.length\<close>; both read.
\<close>

type_synonym heap = "nat \<Rightarrow> byte list"

definition heap_toString_hex :: "nat \<Rightarrow> nat \<Rightarrow> nat \<Rightarrow> heap \<Rightarrow> jsstring \<times> heap" where
  "heap_toString_hex buffer start end h = (Buffer_toString_hex (h buffer) start end, h)"

definition heap_toString_utf8 :: "nat \<Rightarrow> heap \<Rightarrow> (fault + jsstring) \<times> heap" where
  "heap_toString_utf8 buffer h = (Buffer_toString_utf8 (h buffer), h)"

definition heap_toString_utf8_slice ::
  "nat \<Rightarrow> nat \<Rightarrow> nat \<Rightarrow> heap \<Rightarrow> (fault + jsstring) \<times> heap" where
  "heap_toString_utf8_slice buffer start end h =
     (Buffer_toString_utf8 (take (end - start) (drop start (h buffer))), h)"

definition heap_length :: "nat \<Rightarrow> heap \<Rightarrow> nat \<times> heap" where
  "heap_length buffer h = (length (h buffer), h)"

definition detectFileType_heap :: "nat \<Rightarrow> jsval \<Rightarrow> heap \<Rightarrow> (fault + jsstring) \<times> heap" where
  "detectFileType_heap buffer fileName h0 =
     (case heap_toString_hex buffer 0 8 h0 of
        (magic, h1) \<Rightarrow>
          if startsWith magic MAGIC_PDF then (Inr (js ''pdf''), h1)
          else if startsWith magic MAGIC_PNG \<or> startsWith magic MAGIC_JPEG then (Inr (js ''image''), h1)
          else if startsWith magic MAGIC_DOC \<or> startsWith magic MAGIC_ZIP then (Inr (js ''document''), h1)
          else
            (case heap_toString_utf8 buffer h1 of
               (Inl e, h2) \<Rightarrow> (extension_fallback fileName, h2)
             | (Inr text, h2) \<Rightarrow>
                 let nullBytes = str_includes text [0];
                     printableRatio = js_divide (length (filter printable text)) (length text)
                 in
                 if \<not> nullBytes \<and> js_greater printableRatio (8 / 10) then (Inr (js ''text''), h2)
                 else (extension_fallback fileName, h2)))"

definition processBuffer_heap :: "nat \<Rightarrow> jsval \<Rightarrow> heap \<Rightarrow> (fault + jsval) \<times> heap" where
  "processBuffer_heap buffer fileName h0 =
     (case detectFileType_heap buffer fileName h0 of
        (Inl e, h1) \<Rightarrow> (Inl e, h1)
      | (Inr fileType, h1) \<Rightarrow>
          (case heap_length buffer h1 of
             (fileSize, h2) \<Rightarrow>
               if fileSize > MAX_FILE_SIZE then (Inr (file_too_large fileSize fileType), h2)
               else if fileType = js ''pdf'' then
                 (case heap_toString_utf8_slice buffer 0 1000 h2 of
                    (Inl e, h3) \<Rightarrow>
                      (Inr (obj [(''success'', JBool False),
                                 (''error'', JStr (js ''PDF processing error'')),
                                 (''type'', JStr (js ''pdf''))]), h3)
                  | (Inr decoded, h3) \<Rightarrow> (Inr (case_pdf_body decoded fileName fileSize), h3))
               else if fileType = js ''text'' \<or> fileType = js ''txt'' \<or> fileType = js ''html''
                       \<or> fileType = js ''htm'' then
                 (case heap_toString_utf8 buffer h2 of
                    (Inl e, h3) \<Rightarrow>
                      (Inr (obj [(''success'', JBool False),
                                 (''error'', JStr (js ''Text decoding error'')),
                                 (''type'', JStr fileType)]), h3)
                  | (Inr text, h3) \<Rightarrow> (Inr (case_text_body text fileName fileType fileSize), h3))
               else if fileType = js ''image'' then (Inr case_image, h2)
               else if fileType = js ''document'' then (Inr case_document, h2)
               else (Inr case_default, h2)))"

section \<open>A request and a world for the examples\<close>

definition post_request :: request where
  \<comment> \<open>a JSON \<^verbatim>\<open>POST\<close> without an API key\<close>
  "post_request =
     \<lparr>http_method = js ''POST'', x_forwarded_for = None, remoteAddress = Some (js ''203.0.113.7''),
      x_api_key = None, authorization = None, content_type = Some (js ''application/json'')\<rparr>"

definition quiet_world :: world where
  \<comment> \<open>no key is required, the request takes 7 ms, and every library call of the examples
     that is not overridden fails or returns nothing\<close>
  "quiet_world =
     \<lparr>clock_start = 1000, clock_rate = 1000, clock_end = 1007,
      REQUIRE_API_KEY = False, development = False,
      upload = Files [] [] [], json_body = InvalidJSON,
      url_protocol = None, network = RequestTimeout, url_basename = Inr [],
      string_bytes = [], arraylike_bytes = Inr []\<rparr>"

section \<open>Predicates of the statements\<close>

definition printable_byte :: "byte \<Rightarrow> bool" where
  \<comment> \<open>a byte that is a printable ASCII character, a line feed, a carriage return or a tab\<close>
  "printable_byte b = ((0x20 \<le> b \<and> b \<le> 0x7E) \<or> b = 0x0A \<or> b = 0x0D \<or> b = 0x09)"

definition text_tag :: "jsstring \<Rightarrow> bool" where
  \<comment> \<open>the four labels of the text case of \<^verbatim>\<open>processBuffer\<close>\<close>
  "text_tag t = (t = js ''text'' \<or> t = js ''txt'' \<or> t = js ''html'' \<or> t = js ''htm'')"

fun own_keys :: "jsval \<Rightarrow> jsstring list" where
  \<comment> \<open>the names of the properties of an object, in order\<close>
  "own_keys (JObj kvs) = map fst kvs"
| "own_keys v = []"

section \<open>Classification by signature\<close>

lemma magic_literals:
  "MAGIC_PDF = [0x32, 0x35, 0x35, 0x30, 0x34, 0x34, 0x34, 0x36]"
  "MAGIC_PNG = [0x38, 0x39, 0x35, 0x30, 0x34, 0x65, 0x34, 0x37]"
  "MAGIC_JPEG = [0x66, 0x66, 0x64, 0x38]"
  "MAGIC_DOC = [0x64, 0x30, 0x63, 0x66, 0x31, 0x31, 0x65, 0x30]"
  "MAGIC_ZIP = [0x35, 0x30, 0x34, 0x62, 0x30, 0x33, 0x30, 0x34]"
  by (simp_all add: MAGIC_PDF_def MAGIC_PNG_def MAGIC_JPEG_def MAGIC_DOC_def MAGIC_ZIP_def js_def)

lemma prefix_first_differs:
  "prefix (a # p) s \<Longrightarrow> a \<noteq> b \<Longrightarrow> \<not> prefix (b # q) s"
  by (cases s) auto

lemma detectFileType_pdf:
  "startsWith (Buffer_toString_hex buffer 0 8) MAGIC_PDF \<Longrightarrow>
   detectFileType buffer fileName = Inr (js ''pdf'')"
  by (simp add: detectFileType_def)

lemma detectFileType_image:
  assumes "startsWith (Buffer_toString_hex buffer 0 8) MAGIC_PNG
           \<or> startsWith (Buffer_toString_hex buffer 0 8) MAGIC_JPEG"
  shows "detectFileType buffer fileName = Inr (js ''image'')"
proof -
  have "\<not> startsWith (Buffer_toString_hex buffer 0 8) MAGIC_PDF"
    using assms unfolding startsWith_def magic_literals
    by (auto dest: prefix_first_differs [where b = "0x32" and q = "[0x35, 0x35, 0x30, 0x34, 0x34, 0x34, 0x36]"])
  with assms show ?thesis
    by (simp add: detectFileType_def)
qed

lemma detectFileType_document:
  assumes "startsWith (Buffer_toString_hex buffer 0 8) MAGIC_DOC
           \<or> startsWith (Buffer_toString_hex buffer 0 8) MAGIC_ZIP"
  shows "detectFileType buffer fileName = Inr (js ''document'')"
proof -
  let ?magic = "Buffer_toString_hex buffer 0 8"
  have "\<not> startsWith ?magic MAGIC_PDF"
    using assms unfolding startsWith_def magic_literals
    by (auto dest: prefix_first_differs [where b = "0x32" and q = "[0x35, 0x35, 0x30, 0x34, 0x34, 0x34, 0x36]"])
  moreover have "\<not> startsWith ?magic MAGIC_PNG"
    using assms unfolding startsWith_def magic_literals
    by (auto dest: prefix_first_differs [where b = "0x38" and q = "[0x39, 0x35, 0x30, 0x34, 0x65, 0x34, 0x37]"])
  moreover have "\<not> startsWith ?magic MAGIC_JPEG"
    using assms unfolding startsWith_def magic_literals
    by (auto dest: prefix_first_differs [where b = "0x66" and q = "[0x66, 0x64, 0x38]"])
  ultimately show ?thesis
    using assms by (simp add: detectFileType_def)
qed

text \<open>
  The same on the bytes: a buffer that begins with the bytes of a signature has the hex
  encoding of that signature at the head of its first 16 hex digits.
\<close>

lemma hex_of_signature_bytes:
  "prefix [0x25, 0x50, 0x44, 0x46] buffer \<Longrightarrow> startsWith (Buffer_toString_hex buffer 0 8) MAGIC_PDF"
  "prefix [0x89, 0x50, 0x4E, 0x47] buffer \<Longrightarrow> startsWith (Buffer_toString_hex buffer 0 8) MAGIC_PNG"
  "prefix [0xFF, 0xD8] buffer \<Longrightarrow> startsWith (Buffer_toString_hex buffer 0 8) MAGIC_JPEG"
  "prefix [0xD0, 0xCF, 0x11, 0xE0] buffer \<Longrightarrow> startsWith (Buffer_toString_hex buffer 0 8) MAGIC_DOC"
  "prefix [0x50, 0x4B, 0x03, 0x04] buffer \<Longrightarrow> startsWith (Buffer_toString_hex buffer 0 8) MAGIC_ZIP"
  by (auto simp: prefix_def Buffer_toString_hex_def hex_byte_def hex_digit_def startsWith_def magic_literals)

lemma detectFileType_of_signature_bytes:
  "prefix [0x25, 0x50, 0x44, 0x46] buffer \<Longrightarrow> detectFileType buffer fileName = Inr (js ''pdf'')"
  "prefix [0x89, 0x50, 0x4E, 0x47] buffer \<or> prefix [0xFF, 0xD8] buffer \<Longrightarrow>
     detectFileType buffer fileName = Inr (js ''image'')"
  "prefix [0xD0, 0xCF, 0x11, 0xE0] buffer \<or> prefix [0x50, 0x4B, 0x03, 0x04] buffer \<Longrightarrow>
     detectFileType buffer fileName = Inr (js ''document'')"
  using hex_of_signature_bytes [of buffer]
  by (blast intro: detectFileType_pdf detectFileType_image detectFileType_document)+

text \<open>
  Claim C1. Whenever the hex encoding of the first 8 bytes of the buffer starts with a
  registered signature, \<^verbatim>\<open>detectFileType\<close> returns the tag of that signature, whatever
  the file name and whatever the rest of the buffer: \<^verbatim>\<open>25504446\<close> gives \<^verbatim>\<open>pdf\<close>,
  \<^verbatim>\<open>89504e47\<close> and \<^verbatim>\<open>ffd8\<close> give \<^verbatim>\<open>image\<close>, \<^verbatim>\<open>d0cf11e0\<close> and \<^verbatim>\<open>504b0304\<close> give
  \<^verbatim>\<open>document\<close>. Neither the text heuristic nor the extension is consulted.
\<close>

theorem signature_decides_tag:
  "(prefix (js ''25504446'') (Buffer_toString_hex buffer 0 8) \<longrightarrow>
      detectFileType buffer fileName = Inr (js ''pdf'')) \<and>
   (prefix (js ''89504e47'') (Buffer_toString_hex buffer 0 8) \<or>
    prefix (js ''ffd8'') (Buffer_toString_hex buffer 0 8) \<longrightarrow>
      detectFileType buffer fileName = Inr (js ''image'')) \<and>
   (prefix (js ''d0cf11e0'') (Buffer_toString_hex buffer 0 8) \<or>
    prefix (js ''504b0304'') (Buffer_toString_hex buffer 0 8) \<longrightarrow>
      detectFileType buffer fileName = Inr (js ''document''))"
  using detectFileType_pdf [of buffer fileName] detectFileType_image [of buffer fileName]
    detectFileType_document [of buffer fileName]
  unfolding startsWith_def MAGIC_PDF_def MAGIC_PNG_def MAGIC_JPEG_def MAGIC_DOC_def MAGIC_ZIP_def
  by blast

text \<open>
  The theorem at five buffers, one for each signature: a PDF header named as a text file,
  a PNG and a JPEG header (the second with no name at all), a legacy Office header made
  of text-like bytes after the signature, and a ZIP header named as a PDF.
\<close>

theorem signature_decides_tag_witness:
  "prefix (js ''25504446'') (Buffer_toString_hex [0x25, 0x50, 0x44, 0x46, 0x2D, 0x31, 0x2E, 0x34, 0x0A] 0 8) \<and>
   detectFileType [0x25, 0x50, 0x44, 0x46, 0x2D, 0x31, 0x2E, 0x34, 0x0A] (JStr (js ''notes.txt'')) = Inr (js ''pdf'') \<and>
   prefix (js ''89504e47'') (Buffer_toString_hex [0x89, 0x50, 0x4E, 0x47, 0x0D, 0x0A, 0x1A, 0x0A] 0 8) \<and>
   detectFileType [0x89, 0x50, 0x4E, 0x47, 0x0D, 0x0A, 0x1A, 0x0A] (JStr (js ''scan.html'')) = Inr (js ''image'') \<and>
   prefix (js ''ffd8'') (Buffer_toString_hex [0xFF, 0xD8, 0xFF, 0xE0] 0 8) \<and>
   detectFileType [0xFF, 0xD8, 0xFF, 0xE0] JUndefined = Inr (js ''image'') \<and>
   prefix (js ''d0cf11e0'') (Buffer_toString_hex [0xD0, 0xCF, 0x11, 0xE0, 0x41, 0x42] 0 8) \<and>
   detectFileType [0xD0, 0xCF, 0x11, 0xE0, 0x41, 0x42] (JNum 7) = Inr (js ''document'') \<and>
   prefix (js ''504b0304'') (Buffer_toString_hex [0x50, 0x4B, 0x03, 0x04, 0x14] 0 8) \<and>
   detectFileType [0x50, 0x4B, 0x03, 0x04, 0x14] (JStr (js ''cv.pdf'')) = Inr (js ''document'')"
proof -
  have pdf: "prefix (js ''25504446'') (Buffer_toString_hex [0x25, 0x50, 0x44, 0x46, 0x2D, 0x31, 0x2E, 0x34, 0x0A] 0 8)"
    by code_simp
  have png: "prefix (js ''89504e47'') (Buffer_toString_hex [0x89, 0x50, 0x4E, 0x47, 0x0D, 0x0A, 0x1A, 0x0A] 0 8)"
    by code_simp
  have jpeg: "prefix (js ''ffd8'') (Buffer_toString_hex [0xFF, 0xD8, 0xFF, 0xE0] 0 8)"
    by code_simp
  have doc: "prefix (js ''d0cf11e0'') (Buffer_toString_hex [0xD0, 0xCF, 0x11, 0xE0, 0x41, 0x42] 0 8)"
    by code_simp
  have zip: "prefix (js ''504b0304'') (Buffer_toString_hex [0x50, 0x4B, 0x03, 0x04, 0x14] 0 8)"
    by code_simp
  show ?thesis
    using pdf png jpeg doc zip
      signature_decides_tag [of "[0x25, 0x50, 0x44, 0x46, 0x2D, 0x31, 0x2E, 0x34, 0x0A]" "JStr (js ''notes.txt'')"]
      signature_decides_tag [of "[0x89, 0x50, 0x4E, 0x47, 0x0D, 0x0A, 0x1A, 0x0A]" "JStr (js ''scan.html'')"]
      signature_decides_tag [of "[0xFF, 0xD8, 0xFF, 0xE0]" JUndefined]
      signature_decides_tag [of "[0xD0, 0xCF, 0x11, 0xE0, 0x41, 0x42]" "JNum 7"]
      signature_decides_tag [of "[0x50, 0x4B, 0x03, 0x04, 0x14]" "JStr (js ''cv.pdf'')"]
    by blast
qed

section \<open>JavaScript strings and objects\<close>

lemma of_char_code_unit_eq: "((of_char c :: code_unit) = of_char d) = (c = d)"
proof -
  have small: "(of_char x :: nat) < 2 ^ 16" for x
  proof -
    have "(of_char x :: nat) mod 256 < 256"
      by (rule mod_less_divisor) simp
    then have "(of_char x :: nat) < 256"
      by simp
    also have "(256 :: nat) < 2 ^ 16"
      by simp
    finally show ?thesis .
  qed
  have "(of_char x :: code_unit) = of_nat (of_char x)" for x
    by (simp add: of_nat_of_char)
  then have "((of_char c :: code_unit) = of_char d) = ((of_char c :: nat) = of_char d)"
    using small [of c] small [of d]
    by (simp add: word_of_nat_eq_iff take_bit_nat_eq_self)
  then show ?thesis by simp
qed

lemma js_eq_iff: "(js a = js b) = (a = b)"
proof -
  have "inj (of_char :: char \<Rightarrow> code_unit)"
    by (rule injI) (simp add: of_char_code_unit_eq)
  then show ?thesis
    unfolding js_def by (rule inj_map_eq_map)
qed

lemma js_append: "js a @ js b = js (a @ b)"
  by (simp add: js_def)

lemma get_prop_obj_Nil: "get_prop (obj []) k = JUndefined"
  by (simp add: obj_def)

lemma get_prop_obj_Cons:
  "get_prop (obj ((k, v) # kvs)) k' = (if k = k' then v else get_prop (obj kvs) k')"
  by (simp add: obj_def js_eq_iff)

lemmas get_prop_obj = get_prop_obj_Nil get_prop_obj_Cons

lemma str_includes_single: "str_includes s [c] \<longleftrightarrow> c \<in> set s"
  by (induction s) auto

lemma str_split_nonempty: "str_split sep s \<noteq> []"
  by (induction s) (simp_all add: Let_def)

lemma length_str_split: "length (str_split sep s) = 1 + length (filter (\<lambda>c. c = sep) s)"
proof (induction s)
  case Nil
  show ?case by simp
next
  case (Cons c cs)
  have "length (tl (str_split sep cs)) = length (filter (\<lambda>c. c = sep) cs)"
    using Cons by simp
  then show ?case
    using Cons by (simp add: Let_def)
qed

section \<open>Decoding ASCII\<close>

lemma unat_ucast_byte: "unat (ucast (b :: byte) :: code_unit) = unat b"
proof -
  have "unat b < 2 ^ 8"
    using unsigned_less [of b, where 'a = nat] by simp
  then have "unat b < 2 ^ 16"
    by simp
  then show ?thesis
    by (simp add: unsigned_ucast_eq take_bit_nat_eq_self)
qed

lemma ucast_byte_le: "((ucast (a :: byte) :: code_unit) \<le> ucast (b :: byte)) = (a \<le> b)"
  by (simp add: word_le_nat_alt unat_ucast_byte)

lemma ucast_byte_eq: "((ucast (a :: byte) :: code_unit) = ucast (b :: byte)) = (a = b)"
  by (metis ucast_byte_le order_antisym order_refl)

lemma printable_ucast: "printable (ucast (b :: byte)) = printable_byte b"
  using ucast_byte_le [of "0x20" b] ucast_byte_le [of b "0x7E"]
    ucast_byte_eq [of b "0x0A"] ucast_byte_eq [of b "0x0D"] ucast_byte_eq [of b "0x09"]
  by (simp add: printable_def printable_byte_def)

lemma printable_byte_ascii: "printable_byte b \<Longrightarrow> unat b \<le> 0x7F"
  by (auto simp: printable_byte_def word_le_nat_alt)

lemma utf8_decode_ascii:
  "list_all (\<lambda>b. unat b \<le> 0x7F) bs \<Longrightarrow> utf8_decode utf8_initial bs = map ucast bs"
  by (induction bs) (simp_all add: utf8_lead_def utf8_initial_def of_nat_unat)

lemma printable_not_null: "\<not> printable 0"
  by (simp add: printable_def)

lemma text_of_printable_buffer:
  assumes "list_all printable_byte buffer"
  shows "utf8_text buffer = map ucast buffer"
    and "filter printable (utf8_text buffer) = utf8_text buffer"
    and "\<not> str_includes (utf8_text buffer) [0]"
proof -
  have "list_all (\<lambda>b. unat b \<le> 0x7F) buffer"
    using assms by (induction buffer) (auto dest: printable_byte_ascii)
  then show decoded: "utf8_text buffer = map ucast buffer"
    by (simp add: utf8_text_def utf8_decode_ascii)
  have all: "list_all printable (map ucast buffer)"
    using assms by (induction buffer) (simp_all add: printable_ucast)
  then show "filter printable (utf8_text buffer) = utf8_text buffer"
    by (simp add: decoded list_all_iff)
  show "\<not> str_includes (utf8_text buffer) [0]"
    using all printable_not_null unfolding decoded str_includes_single list_all_iff by blast
qed

lemma toString_within_limit:
  "length bytes \<le> MAX_STRING_LENGTH \<Longrightarrow> Buffer_toString_utf8 bytes = Inr (utf8_text bytes)"
  by (simp add: Buffer_toString_utf8_def)

lemma toString_within_file_size:
  "length bytes \<le> MAX_FILE_SIZE \<Longrightarrow> Buffer_toString_utf8 bytes = Inr (utf8_text bytes)"
  by (simp add: Buffer_toString_utf8_def MAX_FILE_SIZE_def MAX_STRING_LENGTH_def)

lemma printable_buffer_is_text:
  assumes "buffer \<noteq> []" and "list_all printable_byte buffer"
    and "length buffer \<le> MAX_STRING_LENGTH"
    and "\<not> startsWith (Buffer_toString_hex buffer 0 8) MAGIC_PDF"
    and "\<not> startsWith (Buffer_toString_hex buffer 0 8) MAGIC_PNG"
    and "\<not> startsWith (Buffer_toString_hex buffer 0 8) MAGIC_JPEG"
    and "\<not> startsWith (Buffer_toString_hex buffer 0 8) MAGIC_DOC"
    and "\<not> startsWith (Buffer_toString_hex buffer 0 8) MAGIC_ZIP"
  shows "detectFileType buffer fileName = Inr (js ''text'')"
proof -
  have "length (utf8_text buffer) \<noteq> 0"
    using assms(1,2) by (simp add: text_of_printable_buffer(1))
  then have "js_greater (js_divide (length (filter printable (utf8_text buffer)))
                                   (length (utf8_text buffer))) (8 / 10)"
    using assms(2) by (simp add: text_of_printable_buffer(2) js_divide_def js_greater_def)
  then show ?thesis
    using assms by (simp add: detectFileType_def toString_within_limit text_of_printable_buffer(3))
qed

section \<open>The text case\<close>

lemma dispatch_text:
  "text_tag fileType \<Longrightarrow>
   dispatch fileType buffer fileName fileSize = case_text buffer fileName fileType fileSize"
  by (auto simp: dispatch_def text_tag_def js_eq_iff)

lemma processBuffer_text:
  assumes "detectFileType buffer fileName = Inr fileType" and "text_tag fileType"
    and "length buffer \<le> MAX_FILE_SIZE"
  shows "processBuffer buffer fileName =
         Inr (case_text_body (utf8_text buffer) fileName fileType (length buffer))"
  using assms by (simp add: processBuffer_def dispatch_text case_text_def toString_within_file_size)

lemma case_text_body_short:
  assumes "length text \<le> MAX_TEXT_LENGTH"
  shows "get_prop (case_text_body text fileName fileType fileSize) ''text'' = JStr text"
    and "get_prop (case_text_body text fileName fileType fileSize) ''metadata'' =
         obj [(''fileSize'', JNum (of_nat fileSize)),
              (''textLength'', JNum (of_nat (length text))),
              (''lines'', JNum (of_nat (1 + length (filter (\<lambda>c. c = 0x0A) text))))]"
    and "get_prop (case_text_body text fileName fileType fileSize) ''truncated'' = JUndefined"
    and "get_prop (case_text_body text fileName fileType fileSize) ''success'' = JBool True"
  using assms by (simp_all add: case_text_body_def get_prop_obj length_str_split)

lemma case_text_body_long:
  assumes "length text > MAX_TEXT_LENGTH"
  shows "get_prop (case_text_body text fileName fileType fileSize) ''text'' =
         JStr (take MAX_TEXT_LENGTH text @ truncation_notice)"
    and "get_prop (case_text_body text fileName fileType fileSize) ''truncated'' = JBool True"
    and "get_prop (case_text_body text fileName fileType fileSize) ''originalLength'' =
         JNum (of_nat (length text))"
    and "get_prop (case_text_body text fileName fileType fileSize) ''extractedLength'' =
         JNum (of_nat MAX_TEXT_LENGTH)"
    and "get_prop (case_text_body text fileName fileType fileSize) ''metadata'' = JUndefined"
    and "get_prop (case_text_body text fileName fileType fileSize) ''fileSize'' = JUndefined"
    and "get_prop (case_text_body text fileName fileType fileSize) ''textLength'' = JUndefined"
    and "get_prop (case_text_body text fileName fileType fileSize) ''lines'' = JUndefined"
    and "get_prop (case_text_body text fileName fileType fileSize) ''success'' = JBool True"
  using assms by (simp_all add: case_text_body_def get_prop_obj)

section \<open>Buffers of letters\<close>

lemma list_all_replicate: "list_all P (replicate n x) = (n = 0 \<or> P x)"
  by (induction n) auto

lemma letters_are_text:
  assumes "0 < n" and "n \<le> MAX_STRING_LENGTH"
  shows "detectFileType (replicate n 0x41) fileName = Inr (js ''text'')"
proof -
  obtain m where n: "n = Suc m"
    using assms by (cases n) auto
  show ?thesis
  proof (rule printable_buffer_is_text)
    show "replicate n (0x41 :: byte) \<noteq> []"
      using assms by simp
    show "list_all printable_byte (replicate n 0x41)"
      by (simp add: list_all_replicate printable_byte_def)
    show "length (replicate n (0x41 :: byte)) \<le> MAX_STRING_LENGTH"
      using assms by simp
  qed (simp_all add: n Buffer_toString_hex_def hex_byte_def hex_digit_def startsWith_def magic_literals)
qed

lemma test_is_text:
  "detectFileType [0x74, 0x65, 0x73, 0x74] fileName = Inr (js ''text'')"
proof (rule printable_buffer_is_text)
  show "list_all printable_byte [0x74, 0x65, 0x73, 0x74]"
    by (simp add: printable_byte_def)
  show "length [0x74, 0x65, 0x73, 0x74 :: byte] \<le> MAX_STRING_LENGTH"
    by (simp add: MAX_STRING_LENGTH_def)
qed (simp_all add: Buffer_toString_hex_def hex_byte_def hex_digit_def startsWith_def magic_literals)

lemma text_of_letters: "utf8_text (replicate n 0x41) = replicate n 0x41"
proof -
  have "list_all printable_byte (replicate n 0x41)"
    by (simp add: list_all_replicate printable_byte_def)
  then show ?thesis
    by (simp add: text_of_printable_buffer(1))
qed

section \<open>The result of the text case\<close>

text \<open>
  Claim C3. A buffer reaches the text case when its length is within \<^verbatim>\<open>MAX_FILE_SIZE\<close> and
  its tag is \<^verbatim>\<open>text\<close>, \<^verbatim>\<open>txt\<close>, \<^verbatim>\<open>html\<close> or \<^verbatim>\<open>htm\<close>. Then, with \<^verbatim>\<open>text\<close> the
  buffer decoded as UTF-8: if \<^verbatim>\<open>text\<close> has at most \<^verbatim>\<open>MAX_TEXT_LENGTH\<close> code units, the
  result's \<^verbatim>\<open>text\<close> is the decoded input itself and \<^verbatim>\<open>metadata.lines\<close> is one more than
  the number of line feeds in it; if it has more, the result's \<^verbatim>\<open>text\<close> is its first
  \<^verbatim>\<open>MAX_TEXT_LENGTH\<close> code units (exactly that many) followed by the truncation notice,
  \<^verbatim>\<open>truncated\<close> is true, \<^verbatim>\<open>originalLength\<close> is the full decoded length and
  \<^verbatim>\<open>extractedLength\<close> is \<^verbatim>\<open>MAX_TEXT_LENGTH\<close>.
\<close>

theorem text_handler_result:
  assumes "detectFileType buffer fileName = Inr fileType"
    and "fileType = js ''text'' \<or> fileType = js ''txt'' \<or> fileType = js ''html'' \<or> fileType = js ''htm''"
    and "length buffer \<le> MAX_FILE_SIZE"
  shows "\<exists>result. processBuffer buffer fileName = Inr result \<and>
           (length (utf8_text buffer) \<le> MAX_TEXT_LENGTH \<longrightarrow>
              get_prop result ''text'' = JStr (utf8_text buffer) \<and>
              get_prop (get_prop result ''metadata'') ''lines'' =
                JNum (of_nat (1 + length (filter (\<lambda>c. c = 0x0A) (utf8_text buffer))))) \<and>
           (length (utf8_text buffer) > MAX_TEXT_LENGTH \<longrightarrow>
              get_prop result ''text'' =
                JStr (take MAX_TEXT_LENGTH (utf8_text buffer) @ truncation_notice) \<and>
              length (take MAX_TEXT_LENGTH (utf8_text buffer)) = MAX_TEXT_LENGTH \<and>
              get_prop result ''truncated'' = JBool True \<and>
              get_prop result ''originalLength'' = JNum (of_nat (length (utf8_text buffer))) \<and>
              get_prop result ''extractedLength'' = JNum (of_nat MAX_TEXT_LENGTH))"
proof -
  let ?text = "utf8_text buffer"
  let ?result = "case_text_body ?text fileName fileType (length buffer)"
  have run: "processBuffer buffer fileName = Inr ?result"
    using assms by (simp add: processBuffer_text text_tag_def)
  have short: "length ?text \<le> MAX_TEXT_LENGTH \<longrightarrow>
      get_prop ?result ''text'' = JStr ?text \<and>
      get_prop (get_prop ?result ''metadata'') ''lines'' =
        JNum (of_nat (1 + length (filter (\<lambda>c. c = 0x0A) ?text)))"
    by (simp add: case_text_body_short get_prop_obj)
  have long: "length ?text > MAX_TEXT_LENGTH \<longrightarrow>
      get_prop ?result ''text'' = JStr (take MAX_TEXT_LENGTH ?text @ truncation_notice) \<and>
      length (take MAX_TEXT_LENGTH ?text) = MAX_TEXT_LENGTH \<and>
      get_prop ?result ''truncated'' = JBool True \<and>
      get_prop ?result ''originalLength'' = JNum (of_nat (length ?text)) \<and>
      get_prop ?result ''extractedLength'' = JNum (of_nat MAX_TEXT_LENGTH)"
    by (simp add: case_text_body_long)
  from run short long show ?thesis
    by blast
qed

text \<open>
  The theorem at the four bytes of \<^verbatim>\<open>test\<close>, named \<^verbatim>\<open>test.txt\<close> (one line, returned as
  it is), and at 50001 letters \<^verbatim>\<open>A\<close> with no name (cut to 50000).
\<close>

theorem text_handler_result_witness:
  "detectFileType [0x74, 0x65, 0x73, 0x74] (JStr (js ''test.txt'')) = Inr (js ''text'') \<and>
   length [0x74, 0x65, 0x73, 0x74 :: byte] \<le> MAX_FILE_SIZE \<and>
   length (utf8_text [0x74, 0x65, 0x73, 0x74]) \<le> MAX_TEXT_LENGTH \<and>
   (\<exists>result. processBuffer [0x74, 0x65, 0x73, 0x74] (JStr (js ''test.txt'')) = Inr result \<and>
      get_prop result ''text'' = JStr (js ''test'') \<and>
      get_prop (get_prop result ''metadata'') ''lines'' = JNum 1) \<and>
   detectFileType (replicate 50001 0x41) JUndefined = Inr (js ''text'') \<and>
   length (replicate 50001 (0x41 :: byte)) \<le> MAX_FILE_SIZE \<and>
   length (utf8_text (replicate 50001 0x41)) > MAX_TEXT_LENGTH \<and>
   (\<exists>result. processBuffer (replicate 50001 0x41) JUndefined = Inr result \<and>
      get_prop result ''text'' = JStr (replicate 50000 0x41 @ truncation_notice) \<and>
      get_prop result ''truncated'' = JBool True \<and>
      get_prop result ''originalLength'' = JNum 50001 \<and>
      get_prop result ''extractedLength'' = JNum 50000)"
proof -
  have tag: "detectFileType [0x74, 0x65, 0x73, 0x74] (JStr (js ''test.txt'')) = Inr (js ''text'')"
    by (rule test_is_text)
  have decoded: "utf8_text [0x74, 0x65, 0x73, 0x74] = js ''test''"
    by code_simp
  have small: "length [0x74, 0x65, 0x73, 0x74 :: byte] \<le> MAX_FILE_SIZE"
    by (simp add: MAX_FILE_SIZE_def)
  have short: "length (js ''test'') \<le> MAX_TEXT_LENGTH"
    by (simp add: MAX_TEXT_LENGTH_def js_def)
  have no_newline: "filter (\<lambda>c. c = 0x0A) (js ''test'') = []"
    by (simp add: js_def)
  have tag': "detectFileType (replicate 50001 0x41) JUndefined = Inr (js ''text'')"
    by (simp add: letters_are_text MAX_STRING_LENGTH_def)
  have small': "length (replicate 50001 (0x41 :: byte)) \<le> MAX_FILE_SIZE"
    by (simp add: MAX_FILE_SIZE_def)
  have long: "length (utf8_text (replicate 50001 0x41)) > MAX_TEXT_LENGTH"
    by (simp add: text_of_letters MAX_TEXT_LENGTH_def)
  show ?thesis
    using text_handler_result [OF tag _ small] text_handler_result [OF tag' _ small']
      tag small short tag' small' long
    by (simp add: decoded text_of_letters no_newline MAX_TEXT_LENGTH_def)
qed

lemma own_keys_obj: "own_keys (obj kvs) = map js (map fst kvs)"
  by (simp add: obj_def case_prod_unfold)

lemma truthy_obj: "truthy (obj kvs)"
  by (simp add: obj_def)

lemma or_else_obj: "or_else (obj kvs) v = obj kvs"
  by (simp add: or_else_def truthy_obj)

lemma respond_success:
  assumes "get_prop result ''success'' = JBool True"
  shows "fst (respond result t0 t1) = 200"
    and "get_prop (get_prop (snd (respond result t0 t1)) ''data'') ''metadata'' =
         or_else (get_prop result ''metadata'') (JObj [])"
  using assms by (simp_all add: respond_def get_prop_obj)

section \<open>The metadata of a truncated text\<close>

text \<open>
  Claim C10. For a buffer that reaches the text case and whose decoded text is longer than
  \<^verbatim>\<open>MAX_TEXT_LENGTH\<close>, the result has the seven properties \<^verbatim>\<open>success\<close>, \<^verbatim>\<open>type\<close>,
  \<^verbatim>\<open>fileName\<close>, \<^verbatim>\<open>text\<close>, \<^verbatim>\<open>truncated\<close>, \<^verbatim>\<open>originalLength\<close> and \<^verbatim>\<open>extractedLength\<close>
  and no others: no \<^verbatim>\<open>metadata\<close>, \<^verbatim>\<open>fileSize\<close>, \<^verbatim>\<open>textLength\<close> or \<^verbatim>\<open>lines\<close>. The response
  is then the success envelope with \<^verbatim>\<open>data.metadata\<close> the empty object. When the text is
  not longer than the limit, \<^verbatim>\<open>data.metadata\<close> holds \<^verbatim>\<open>fileSize\<close>, \<^verbatim>\<open>textLength\<close> and
  \<^verbatim>\<open>lines\<close>.
\<close>

theorem truncated_text_has_no_metadata:
  assumes "detectFileType buffer fileName = Inr fileType"
    and "fileType = js ''text'' \<or> fileType = js ''txt'' \<or> fileType = js ''html'' \<or> fileType = js ''htm''"
    and "length buffer \<le> MAX_FILE_SIZE"
  shows "\<exists>result. processBuffer buffer fileName = Inr result \<and>
           (length (utf8_text buffer) > MAX_TEXT_LENGTH \<longrightarrow>
              own_keys result = map js [''success'', ''type'', ''fileName'', ''text'', ''truncated'',
                                       ''originalLength'', ''extractedLength''] \<and>
              get_prop result ''metadata'' = JUndefined \<and>
              get_prop result ''fileSize'' = JUndefined \<and>
              get_prop result ''textLength'' = JUndefined \<and>
              get_prop result ''lines'' = JUndefined \<and>
              fst (respond result startTime now) = 200 \<and>
              get_prop (get_prop (snd (respond result startTime now)) ''data'') ''metadata'' = JObj []) \<and>
           (length (utf8_text buffer) \<le> MAX_TEXT_LENGTH \<longrightarrow>
              fst (respond result startTime now) = 200 \<and>
              get_prop (get_prop (snd (respond result startTime now)) ''data'') ''metadata'' =
                obj [(''fileSize'', JNum (of_nat (length buffer))),
                     (''textLength'', JNum (of_nat (length (utf8_text buffer)))),
                     (''lines'', JNum (of_nat (1 + length (filter (\<lambda>c. c = 0x0A) (utf8_text buffer)))))])"
proof -
  let ?text = "utf8_text buffer"
  let ?result = "case_text_body ?text fileName fileType (length buffer)"
  have run: "processBuffer buffer fileName = Inr ?result"
    using assms by (simp add: processBuffer_text text_tag_def)
  have long: "length ?text > MAX_TEXT_LENGTH \<longrightarrow>
      own_keys ?result = map js [''success'', ''type'', ''fileName'', ''text'', ''truncated'',
                                 ''originalLength'', ''extractedLength''] \<and>
      get_prop ?result ''metadata'' = JUndefined \<and>
      get_prop ?result ''fileSize'' = JUndefined \<and>
      get_prop ?result ''textLength'' = JUndefined \<and>
      get_prop ?result ''lines'' = JUndefined \<and>
      fst (respond ?result startTime now) = 200 \<and>
      get_prop (get_prop (snd (respond ?result startTime now)) ''data'') ''metadata'' = JObj []"
  proof
    assume over: "length ?text > MAX_TEXT_LENGTH"
    have "own_keys ?result = map js [''success'', ''type'', ''fileName'', ''text'', ''truncated'',
                                     ''originalLength'', ''extractedLength'']"
      using over by (simp add: case_text_body_def own_keys_obj)
    then show "own_keys ?result = map js [''success'', ''type'', ''fileName'', ''text'', ''truncated'',
                                 ''originalLength'', ''extractedLength''] \<and>
      get_prop ?result ''metadata'' = JUndefined \<and>
      get_prop ?result ''fileSize'' = JUndefined \<and>
      get_prop ?result ''textLength'' = JUndefined \<and>
      get_prop ?result ''lines'' = JUndefined \<and>
      fst (respond ?result startTime now) = 200 \<and>
      get_prop (get_prop (snd (respond ?result startTime now)) ''data'') ''metadata'' = JObj []"
      using over by (simp add: case_text_body_long respond_success or_else_def)
  qed
  have short: "length ?text \<le> MAX_TEXT_LENGTH \<longrightarrow>
      fst (respond ?result startTime now) = 200 \<and>
      get_prop (get_prop (snd (respond ?result startTime now)) ''data'') ''metadata'' =
        obj [(''fileSize'', JNum (of_nat (length buffer))),
             (''textLength'', JNum (of_nat (length ?text))),
             (''lines'', JNum (of_nat (1 + length (filter (\<lambda>c. c = 0x0A) ?text))))]"
    by (simp add: case_text_body_short respond_success or_else_obj)
  from run long short show ?thesis
    by blast
qed

text \<open>
  The theorem at 50001 letters \<^verbatim>\<open>A\<close> (truncated: the metadata sent is empty) and at the
  four bytes of \<^verbatim>\<open>test\<close> (not truncated: the metadata has its three numbers).
\<close>

theorem truncated_text_has_no_metadata_witness:
  "detectFileType (replicate 50001 0x41) JUndefined = Inr (js ''text'') \<and>
   length (replicate 50001 (0x41 :: byte)) \<le> MAX_FILE_SIZE \<and>
   length (utf8_text (replicate 50001 0x41)) > MAX_TEXT_LENGTH \<and>
   (\<exists>result. processBuffer (replicate 50001 0x41) JUndefined = Inr result \<and>
      get_prop result ''metadata'' = JUndefined \<and>
      fst (respond result 1000 1007) = 200 \<and>
      get_prop (get_prop (snd (respond result 1000 1007)) ''data'') ''metadata'' = JObj []) \<and>
   detectFileType [0x74, 0x65, 0x73, 0x74] (JStr (js ''test.txt'')) = Inr (js ''text'') \<and>
   length [0x74, 0x65, 0x73, 0x74 :: byte] \<le> MAX_FILE_SIZE \<and>
   length (utf8_text [0x74, 0x65, 0x73, 0x74]) \<le> MAX_TEXT_LENGTH \<and>
   (\<exists>result. processBuffer [0x74, 0x65, 0x73, 0x74] (JStr (js ''test.txt'')) = Inr result \<and>
      fst (respond result 1000 1007) = 200 \<and>
      get_prop (get_prop (snd (respond result 1000 1007)) ''data'') ''metadata'' =
        obj [(''fileSize'', JNum 4), (''textLength'', JNum 4), (''lines'', JNum 1)])"
proof -
  have tag: "detectFileType [0x74, 0x65, 0x73, 0x74] (JStr (js ''test.txt'')) = Inr (js ''text'')"
    by (rule test_is_text)
  have decoded: "utf8_text [0x74, 0x65, 0x73, 0x74] = js ''test''"
    by code_simp
  have small: "length [0x74, 0x65, 0x73, 0x74 :: byte] \<le> MAX_FILE_SIZE"
    by (simp add: MAX_FILE_SIZE_def)
  have short: "length (js ''test'') \<le> MAX_TEXT_LENGTH"
    by (simp add: MAX_TEXT_LENGTH_def js_def)
  have no_newline: "filter (\<lambda>c. c = 0x0A) (js ''test'') = []" "length (js ''test'') = 4"
    by (simp_all add: js_def)
  have tag': "detectFileType (replicate 50001 0x41) JUndefined = Inr (js ''text'')"
    by (simp add: letters_are_text MAX_STRING_LENGTH_def)
  have small': "length (replicate 50001 (0x41 :: byte)) \<le> MAX_FILE_SIZE"
    by (simp add: MAX_FILE_SIZE_def)
  have long: "length (utf8_text (replicate 50001 0x41)) > MAX_TEXT_LENGTH"
    by (simp add: text_of_letters MAX_TEXT_LENGTH_def)
  show ?thesis
    using truncated_text_has_no_metadata [OF tag _ small, of 1000 1007]
      truncated_text_has_no_metadata [OF tag' _ small', of 1000 1007]
      tag small short tag' small' long
    by (simp add: decoded text_of_letters no_newline MAX_TEXT_LENGTH_def) blast
qed

section \<open>The size check\<close>

lemma dec_MAX_FILE_SIZE: "dec MAX_FILE_SIZE = js ''52428800''"
  by (simp add: MAX_FILE_SIZE_def dec.simps js_def)

lemma processBuffer_too_large:
  assumes "length buffer > MAX_FILE_SIZE" and "detectFileType buffer fileName = Inr fileType"
  shows "processBuffer buffer fileName =
         Inr (obj [(''success'', JBool False),
                   (''error'', JStr (js ''File too large: '' @ dec (length buffer) @ js '' bytes (max: 52428800 bytes)'')),
                   (''type'', JStr fileType)])"
  using assms
  by (simp add: processBuffer_def file_too_large_def dec_MAX_FILE_SIZE js_append)

lemma dispatch_error_is_not_the_size:
  "get_prop (dispatch fileType buffer fileName fileSize) ''error'' \<noteq> JStr (js ''File too large: '' @ rest)"
proof -
  have size: "js ''File too large: '' @ rest = 0x46 # tl (js ''File too large: '') @ rest"
    by (simp add: js_def)
  have pdf: "get_prop (case_pdf buffer fileName fileSize) ''error'' = JUndefined \<or>
             get_prop (case_pdf buffer fileName fileSize) ''error'' = JStr (0x50 # tl (js ''PDF processing error''))"
    by (simp add: case_pdf_def case_pdf_body_def Let_def get_prop_obj js_def split: sum.split)
  have textcase: "get_prop (case_text buffer fileName fileType fileSize) ''error'' = JUndefined \<or>
             get_prop (case_text buffer fileName fileType fileSize) ''error'' = JStr (0x54 # tl (js ''Text decoding error''))"
    by (simp add: case_text_def case_text_body_def get_prop_obj js_def split: sum.split)
  have rest: "get_prop case_image ''error'' = JStr (0x49 # tl (js ''Image files not supported. OCR service required.''))"
    "get_prop case_document ''error'' = JStr (0x44 # tl (js ''Document processing requires additional services''))"
    "get_prop case_default ''error'' = JStr (0x55 # tl (js ''Unsupported file type''))"
    by (simp_all add: case_image_def case_document_def case_default_def get_prop_obj js_def)
  show ?thesis
    unfolding dispatch_def size using pdf textcase rest by (auto split: if_splits)
qed

lemma dispatch_is_not_too_large:
  "dispatch fileType buffer fileName fileSize \<noteq>
   obj [(''success'', JBool False), (''error'', JStr (js ''File too large: '' @ rest)), (''type'', t)]"
proof
  assume "dispatch fileType buffer fileName fileSize =
          obj [(''success'', JBool False), (''error'', JStr (js ''File too large: '' @ rest)), (''type'', t)]"
  then have "get_prop (dispatch fileType buffer fileName fileSize) ''error'' =
             JStr (js ''File too large: '' @ rest)"
    by (simp add: get_prop_obj)
  then show False
    using dispatch_error_is_not_the_size by blast
qed

text \<open>
  Claim C4, as amended. \<^verbatim>\<open>processBuffer\<close> classifies the buffer first and checks its size
  second. For every buffer longer than \<^verbatim>\<open>MAX_FILE_SIZE\<close> on which the classification
  returns a tag, the result is the failure \<^verbatim>\<open>File too large: N bytes (max: 52428800 bytes)\<close>
  with \<^verbatim>\<open>N\<close> the length of the buffer, and its \<^verbatim>\<open>type\<close> is the tag the classifier
  returned. The check comes before the \<^verbatim>\<open>switch\<close>: the result is not what the case of
  that tag would have produced for the buffer.
\<close>

theorem oversized_buffer_is_classified_then_rejected:
  assumes "length buffer > MAX_FILE_SIZE" and "detectFileType buffer fileName = Inr fileType"
  shows "processBuffer buffer fileName =
           Inr (obj [(''success'', JBool False),
                     (''error'', JStr (js ''File too large: '' @ dec (length buffer)
                                       @ js '' bytes (max: 52428800 bytes)'')),
                     (''type'', JStr fileType)]) \<and>
         processBuffer buffer fileName \<noteq> Inr (dispatch fileType buffer fileName (length buffer))"
proof -
  have rejected: "processBuffer buffer fileName =
      Inr (obj [(''success'', JBool False),
                (''error'', JStr (js ''File too large: '' @ dec (length buffer)
                                  @ js '' bytes (max: 52428800 bytes)'')),
                (''type'', JStr fileType)])"
    by (rule processBuffer_too_large [OF assms])
  have "dispatch fileType buffer fileName (length buffer) \<noteq>
      obj [(''success'', JBool False),
           (''error'', JStr (js ''File too large: '' @ dec (length buffer)
                             @ js '' bytes (max: 52428800 bytes)'')),
           (''type'', JStr fileType)]"
    by (rule dispatch_is_not_too_large)
  then have "processBuffer buffer fileName \<noteq> Inr (dispatch fileType buffer fileName (length buffer))"
    unfolding rejected by (metis sum.inject(2))
  with rejected show ?thesis
    by (rule conjI)
qed

lemma big_pdf_is_pdf:
  "detectFileType (0x25 # 0x50 # 0x44 # 0x46 # replicate n 0x20) fileName = Inr (js ''pdf'')"
  by (rule detectFileType_pdf)
     (simp add: Buffer_toString_hex_def hex_byte_def hex_digit_def startsWith_def magic_literals)

lemma big_png_is_image:
  "detectFileType (0x89 # 0x50 # 0x4E # 0x47 # replicate n 0x20) fileName = Inr (js ''image'')"
  by (rule detectFileType_image)
     (simp add: Buffer_toString_hex_def hex_byte_def hex_digit_def startsWith_def magic_literals)

lemma dec_52428801: "dec 52428801 = js ''52428801''"
  by (simp add: dec.simps js_def)

text \<open>
  The theorem at a buffer of 52428801 bytes, one more than the limit, that starts with the
  PDF signature.
\<close>

theorem oversized_buffer_is_classified_then_rejected_witness:
  "length (0x25 # 0x50 # 0x44 # 0x46 # replicate 52428797 (0x20 :: byte)) > MAX_FILE_SIZE \<and>
   detectFileType (0x25 # 0x50 # 0x44 # 0x46 # replicate 52428797 0x20) (JStr (js ''big.pdf'')) = Inr (js ''pdf'') \<and>
   processBuffer (0x25 # 0x50 # 0x44 # 0x46 # replicate 52428797 0x20) (JStr (js ''big.pdf'')) =
     Inr (obj [(''success'', JBool False),
               (''error'', JStr (js ''File too large: 52428801 bytes (max: 52428800 bytes)'')),
               (''type'', JStr (js ''pdf''))]) \<and>
   processBuffer (0x25 # 0x50 # 0x44 # 0x46 # replicate 52428797 0x20) (JStr (js ''big.pdf'')) \<noteq>
     Inr (dispatch (js ''pdf'') (0x25 # 0x50 # 0x44 # 0x46 # replicate 52428797 0x20) (JStr (js ''big.pdf'')) 52428801)"
proof -
  have big: "length (0x25 # 0x50 # 0x44 # 0x46 # replicate 52428797 (0x20 :: byte)) > MAX_FILE_SIZE"
    by (simp add: MAX_FILE_SIZE_def)
  have len: "length (0x25 # 0x50 # 0x44 # 0x46 # replicate 52428797 (0x20 :: byte)) = 52428801"
    by simp
  have msg: "js ''File too large: '' @ dec 52428801 @ js '' bytes (max: 52428800 bytes)'' =
             js ''File too large: 52428801 bytes (max: 52428800 bytes)''"
    by (simp add: dec_52428801 js_append)
  note tag = big_pdf_is_pdf [of 52428797 "JStr (js ''big.pdf'')"]
  show ?thesis
    using oversized_buffer_is_classified_then_rejected [OF big tag, unfolded len msg] big tag
    by blast
qed

text \<open>
  Claim C4 as stated fails: the failure does contain the classifier's tag and does depend on
  it. Two buffers of the same length, 52428801 bytes, one starting with the PDF signature and
  one with the PNG signature, given the same file name, are rejected with the same message
  but with different results: the \<^verbatim>\<open>type\<close> of the first is \<^verbatim>\<open>pdf\<close>, that of the second
  \<^verbatim>\<open>image\<close>.
\<close>

theorem size_failure_carries_the_tag:
  "length (0x25 # 0x50 # 0x44 # 0x46 # replicate 52428797 (0x20 :: byte)) > MAX_FILE_SIZE \<and>
   length (0x89 # 0x50 # 0x4E # 0x47 # replicate 52428797 (0x20 :: byte)) =
     length (0x25 # 0x50 # 0x44 # 0x46 # replicate 52428797 (0x20 :: byte)) \<and>
   detectFileType (0x25 # 0x50 # 0x44 # 0x46 # replicate 52428797 0x20) JUndefined = Inr (js ''pdf'') \<and>
   detectFileType (0x89 # 0x50 # 0x4E # 0x47 # replicate 52428797 0x20) JUndefined = Inr (js ''image'') \<and>
   processBuffer (0x25 # 0x50 # 0x44 # 0x46 # replicate 52428797 0x20) JUndefined =
     Inr (obj [(''success'', JBool False),
               (''error'', JStr (js ''File too large: 52428801 bytes (max: 52428800 bytes)'')),
               (''type'', JStr (js ''pdf''))]) \<and>
   processBuffer (0x89 # 0x50 # 0x4E # 0x47 # replicate 52428797 0x20) JUndefined =
     Inr (obj [(''success'', JBool False),
               (''error'', JStr (js ''File too large: 52428801 bytes (max: 52428800 bytes)'')),
               (''type'', JStr (js ''image''))]) \<and>
   processBuffer (0x25 # 0x50 # 0x44 # 0x46 # replicate 52428797 0x20) JUndefined \<noteq>
     processBuffer (0x89 # 0x50 # 0x4E # 0x47 # replicate 52428797 0x20) JUndefined"
proof -
  have big: "length (0x25 # 0x50 # 0x44 # 0x46 # replicate 52428797 (0x20 :: byte)) > MAX_FILE_SIZE"
    "length (0x89 # 0x50 # 0x4E # 0x47 # replicate 52428797 (0x20 :: byte)) > MAX_FILE_SIZE"
    by (simp_all add: MAX_FILE_SIZE_def)
  have len: "length (0x25 # 0x50 # 0x44 # 0x46 # replicate 52428797 (0x20 :: byte)) = 52428801"
    "length (0x89 # 0x50 # 0x4E # 0x47 # replicate 52428797 (0x20 :: byte)) = 52428801"
    by simp_all
  have pdf: "processBuffer (0x25 # 0x50 # 0x44 # 0x46 # replicate 52428797 0x20) JUndefined =
     Inr (obj [(''success'', JBool False),
               (''error'', JStr (js ''File too large: 52428801 bytes (max: 52428800 bytes)'')),
               (''type'', JStr (js ''pdf''))])"
    using processBuffer_too_large [OF big(1) big_pdf_is_pdf [of 52428797 JUndefined]]
    unfolding len dec_52428801 js_append by simp
  have png: "processBuffer (0x89 # 0x50 # 0x4E # 0x47 # replicate 52428797 0x20) JUndefined =
     Inr (obj [(''success'', JBool False),
               (''error'', JStr (js ''File too large: 52428801 bytes (max: 52428800 bytes)'')),
               (''type'', JStr (js ''image''))])"
    using processBuffer_too_large [OF big(2) big_png_is_image [of 52428797 JUndefined]]
    unfolding len dec_52428801 js_append by simp
  have differ: "processBuffer (0x25 # 0x50 # 0x44 # 0x46 # replicate 52428797 0x20) JUndefined \<noteq>
     processBuffer (0x89 # 0x50 # 0x4E # 0x47 # replicate 52428797 0x20) JUndefined"
    unfolding pdf png by (simp add: obj_def js_eq_iff)
  show ?thesis
    using big(1) len pdf png differ big_pdf_is_pdf [of 52428797 JUndefined]
      big_png_is_image [of 52428797 JUndefined]
    by simp
qed

section \<open>The empty buffer\<close>

text \<open>
  Claim C2 holds for every buffer that is not empty and that \<^verbatim>\<open>toString\<close> can decode to
  one string, which includes every buffer within \<^verbatim>\<open>MAX_FILE_SIZE\<close>
  (\<open>printable_buffer_is_text\<close> above). On
  the empty buffer the code does something else: the decoded text has length 0, the ratio
  is \<^verbatim>\<open>0 / 0\<close>, which is \<^verbatim>\<open>NaN\<close>, the comparison with \<^verbatim>\<open>0.8\<close> is false, and the
  classification falls through to the extension of the file name. An empty upload named
  \<^verbatim>\<open>uploaded_file\<close> (the default name of the base64 transport) is \<^verbatim>\<open>unknown\<close>, one named
  \<^verbatim>\<open>empty.txt\<close> is \<^verbatim>\<open>txt\<close>; none is \<^verbatim>\<open>text\<close>.
\<close>

theorem empty_buffer_is_not_text:
  "list_all printable_byte [] \<and>
   Buffer_toString_hex [] 0 8 = [] \<and>
   Buffer_toString_utf8 [] = Inr [] \<and>
   \<not> str_includes [] [0] \<and>
   js_divide (length (filter printable [])) (length ([] :: jsstring)) = None \<and>
   detectFileType [] (JStr (js ''uploaded_file'')) = Inr (js ''unknown'') \<and>
   detectFileType [] (JStr (js ''notes.md'')) = Inr (js ''unknown'') \<and>
   detectFileType [] (JStr (js ''empty.txt'')) = Inr (js ''txt'') \<and>
   detectFileType [] JUndefined = Inr (js ''unknown'')"
proof -
  have decoded: "Buffer_toString_utf8 [] = Inr []"
    by (simp add: Buffer_toString_utf8_def utf8_text_def utf8_initial_def)
  have fallback: "detectFileType [] fileName = extension_fallback fileName" for fileName
    by (simp add: detectFileType_def Buffer_toString_hex_def startsWith_def magic_literals decoded
        js_divide_def js_greater_def)
  have "extension_fallback (JStr (js ''uploaded_file'')) = Inr (js ''unknown'')"
    "extension_fallback (JStr (js ''notes.md'')) = Inr (js ''unknown'')"
    "extension_fallback (JStr (js ''empty.txt'')) = Inr (js ''txt'')"
    "extension_fallback JUndefined = Inr (js ''unknown'')"
    by code_simp+
  then show ?thesis
    by (simp add: fallback decoded Buffer_toString_hex_def js_divide_def)
qed

section \<open>The buffer is only read\<close>

lemma detectFileType_heap_eq:
  "detectFileType_heap buffer fileName h = (detectFileType (h buffer) fileName, h)"
  by (simp add: detectFileType_heap_def detectFileType_def heap_toString_hex_def
      heap_toString_utf8_def Let_def split: sum.split)

lemma processBuffer_heap_eq:
  "processBuffer_heap buffer fileName h = (processBuffer (h buffer) fileName, h)"
  by (simp add: processBuffer_heap_def processBuffer_def detectFileType_heap_eq heap_length_def
      heap_toString_utf8_def heap_toString_utf8_slice_def dispatch_def case_pdf_def case_text_def
      Let_def split: sum.split)

text \<open>
  Claim C9. With the buffer in a store: \<^verbatim>\<open>detectFileType\<close> returns the tag that the pure
  function computes from the bytes at the buffer's address and the file name, and nothing
  else of the store matters; a second run after the first returns the same tag;
  \<^verbatim>\<open>processBuffer\<close>, whichever case it takes, returns what the pure function computes
  and leaves the store as it found it, so the buffer holds the bytes it held on entry.
\<close>

theorem classification_is_pure:
  "detectFileType_heap buffer fileName h = (detectFileType (h buffer) fileName, h) \<and>
   fst (detectFileType_heap buffer fileName (snd (detectFileType_heap buffer fileName h))) =
     fst (detectFileType_heap buffer fileName h) \<and>
   processBuffer_heap buffer fileName h = (processBuffer (h buffer) fileName, h) \<and>
   snd (processBuffer_heap buffer fileName h) buffer = h buffer"
  by (simp add: detectFileType_heap_eq processBuffer_heap_eq)

section \<open>Downloads\<close>

lemma receive_rejects_iff:
  "totalSize \<le> MAX_FILE_SIZE \<Longrightarrow>
   (\<exists>e. receive data chunks totalSize fin = Inl e) \<longleftrightarrow>
   (MAX_FILE_SIZE < totalSize + length (concat data) \<or> fin \<noteq> End)"
proof (induction data arbitrary: chunks totalSize)
  case Nil
  then show ?case
    by (cases fin) simp_all
next
  case (Cons chunk rest)
  show ?case
  proof (cases "MAX_FILE_SIZE < totalSize + length chunk")
    case True
    then show ?thesis by simp
  next
    case False
    then have "totalSize + length chunk \<le> MAX_FILE_SIZE" by simp
    from Cons.IH [OF this, of "chunks @ [chunk]"] False show ?thesis
      by (simp add: add.assoc)
  qed
qed

lemma receive_resolves:
  "receive data chunks totalSize fin = Inr buffer \<Longrightarrow> buffer = concat chunks @ concat data"
proof (induction data arbitrary: chunks totalSize)
  case Nil
  then show ?case by (cases fin) simp_all
next
  case (Cons chunk rest)
  then show ?case
    by (cases "MAX_FILE_SIZE < totalSize + length chunk") fastforce+
qed

text \<open>
  Claim C6, as amended. The fetch fails exactly when the URL does not parse, its scheme is
  neither \<^verbatim>\<open>http:\<close> nor \<^verbatim>\<open>https:\<close>, \<^verbatim>\<open>https.get\<close> throws or its request emits
  \<^verbatim>\<open>error\<close>, the timeout fires, the status of the response is not 200, the data received
  exceeds \<^verbatim>\<open>MAX_FILE_SIZE\<close>, or the response stream fails or times out. Only the status 200
  passes the status check: every other status is refused, the other 2xx statuses included.
\<close>

theorem download_fails_iff:
  "(\<exists>e. downloadFileFromUrl protocol net = Inl e) \<longleftrightarrow>
     (protocol = None \<or>
      (\<exists>p. protocol = Some p \<and> p \<noteq> js ''http:'' \<and> p \<noteq> js ''https:'') \<or>
      (\<exists>e. net = RequestThrows e) \<or>
      (\<exists>e. net = RequestError e) \<or>
      net = RequestTimeout \<or>
      (\<exists>statusCode statusMessage chunks fin.
         net = Response statusCode statusMessage chunks fin \<and>
         (statusCode \<noteq> 200 \<or> MAX_FILE_SIZE < length (concat chunks) \<or> fin \<noteq> End)))"
proof (cases protocol)
  case None
  then show ?thesis by (simp add: downloadFileFromUrl_def)
next
  case (Some p)
  show ?thesis
  proof (cases "p = js ''http:'' \<or> p = js ''https:''")
    case False
    with Some show ?thesis by (auto simp: downloadFileFromUrl_def)
  next
    case True
    show ?thesis
    proof (cases net)
      case (Response statusCode statusMessage chunks fin)
      have "(\<exists>e. receive chunks [] 0 fin = Inl e) \<longleftrightarrow>
            (MAX_FILE_SIZE < length (concat chunks) \<or> fin \<noteq> End)"
        using receive_rejects_iff [of 0 chunks "[]" fin] by simp
      with Some True Response show ?thesis
        by (auto simp: downloadFileFromUrl_def)
    qed (use Some True in \<open>auto simp: downloadFileFromUrl_def\<close>)
  qed
qed

text \<open>
  The theorem at six fetches: statuses 404 and 204, the scheme \<^verbatim>\<open>ftp:\<close>, a timeout before
  the response, a timeout during it, and a response with status 200 that ends after two
  bytes, the one that does not fail.
\<close>

theorem download_fails_iff_witness:
  "(\<exists>e. downloadFileFromUrl (Some (js ''https:'')) (Response 404 (js ''Not Found'') [] End) = Inl e) \<and>
   (\<exists>e. downloadFileFromUrl (Some (js ''https:'')) (Response 204 (js ''No Content'') [] End) = Inl e) \<and>
   (\<exists>e. downloadFileFromUrl (Some (js ''ftp:'')) (Response 200 (js ''OK'') [] End) = Inl e) \<and>
   (\<exists>e. downloadFileFromUrl (Some (js ''https:'')) RequestTimeout = Inl e) \<and>
   (\<exists>e. downloadFileFromUrl (Some (js ''https:'')) (Response 200 (js ''OK'') [[0x68]] StreamTimeout) = Inl e) \<and>
   \<not> (\<exists>e. downloadFileFromUrl (Some (js ''https:'')) (Response 200 (js ''OK'') [[0x68, 0x69]] End) = Inl e)"
  using download_fails_iff [of "Some (js ''https:'')" "Response 404 (js ''Not Found'') [] End"]
    download_fails_iff [of "Some (js ''https:'')" "Response 204 (js ''No Content'') [] End"]
    download_fails_iff [of "Some (js ''ftp:'')" "Response 200 (js ''OK'') [] End"]
    download_fails_iff [of "Some (js ''https:'')" RequestTimeout]
    download_fails_iff [of "Some (js ''https:'')" "Response 200 (js ''OK'') [[0x68]] StreamTimeout"]
    download_fails_iff [of "Some (js ''https:'')" "Response 200 (js ''OK'') [[0x68, 0x69]] End"]
  by (simp add: js_eq_iff MAX_FILE_SIZE_def)

text \<open>
  Claim C6 as stated fails: a response with status 201, a 2xx status, that arrives over
  \<^verbatim>\<open>https:\<close> and ends normally after two bytes is rejected with \<^verbatim>\<open>HTTP 201: Created\<close>.
\<close>

theorem status_201_is_rejected:
  "(200 :: nat) \<le> 201 \<and> (201 :: nat) < 300 \<and>
   length (concat [[0x68, 0x69 :: byte]]) \<le> MAX_FILE_SIZE \<and>
   downloadFileFromUrl (Some (js ''https:'')) (Response 201 (js ''Created'') [[0x68, 0x69]] End) =
     Inl (Error (js ''HTTP 201: Created''))"
  by (simp add: downloadFileFromUrl_def MAX_FILE_SIZE_def dec.simps js_def)

section \<open>The handler\<close>

lemma or_else_simps:
  "truthy a \<Longrightarrow> or_else a b = a"
  "\<not> truthy a \<Longrightarrow> or_else a b = b"
  by (simp_all add: or_else_def)

lemma rateLimit_empty:
  "rateLimit req now (\<lambda>ip. None) =
   (None, (\<lambda>ip. None)(str_or (x_forwarded_for req) (str_or (remoteAddress req) (js ''unknown'')) \<mapsto> [now]))"
  by (simp add: rateLimit_def RATE_LIMIT_MAX_REQUESTS_def)

lemma authenticate_not_required:
  "get_prop (authenticateAPIKey req False) ''valid'' = JBool True"
  by (simp add: authenticateAPIKey_def get_prop_obj)

lemma post_request_is_json:
  "http_method post_request = js ''POST''"
  "\<not> str_includes (str_or (content_type post_request) []) (js ''multipart/form-data'')"
  by (simp_all add: post_request_def str_or_def js_def)

lemma handler_post_json:
  assumes "json_body w = Parsed b" and "REQUIRE_API_KEY w = False"
  shows "fst (handler post_request w (\<lambda>ip. None)) =
         (case json_intake w b of
            Throws e \<Rightarrow>
              (500, Some (obj [(''success'', JBool False),
                               (''error'', JStr (js ''Internal server error'')),
                               (''details'', if development w then JStr (message e) else JUndefined)]))
          | Responds status r \<Rightarrow> (status, Some r)
          | Intake buffer fileName \<Rightarrow>
              (case processBuffer buffer fileName of
                 Inl e \<Rightarrow>
                   (500, Some (obj [(''success'', JBool False),
                                    (''error'', JStr (js ''Internal server error'')),
                                    (''details'', if development w then JStr (message e) else JUndefined)]))
               | Inr result \<Rightarrow>
                   (fst (respond result (clock_start w) (clock_end w)),
                    Some (snd (respond result (clock_start w) (clock_end w))))))"
  using assms
  by (simp add: handler_def post_request_is_json rateLimit_empty authenticate_not_required
      process_request_def intake_def js_eq_iff split: step.split sum.split prod.split)

section \<open>The dispatch on the keys of a JSON body\<close>

lemma json_intake_url:
  assumes "body \<noteq> JNull" and "truthy (get_prop body ''fileUrl'')"
  shows "json_intake w body =
         (case downloadFileFromUrl (url_protocol w) (network w) of
            Inl e \<Rightarrow> Responds 400 (obj [(''error'', JStr (js ''URL download failed: '' @ message e))])
          | Inr buffer \<Rightarrow>
              (case url_basename w of
                 Inl e \<Rightarrow> Responds 400 (obj [(''error'', JStr (js ''URL download failed: '' @ message e))])
               | Inr fileName \<Rightarrow> Intake buffer (JStr fileName)))"
  using assms by (simp add: json_intake_def)

lemma json_intake_base64:
  assumes "body \<noteq> JNull" and "\<not> truthy (get_prop body ''fileUrl'')"
    and "truthy (get_prop body ''fileBase64'')"
  shows "json_intake w body =
         (case Buffer_from w (get_prop body ''fileBase64'') of
            Inl e \<Rightarrow> Responds 400 (obj [(''error'', JStr (js ''Invalid base64 encoding''))])
          | Inr buffer \<Rightarrow>
              Intake buffer (or_else (get_prop body ''fileName'') (JStr (js ''uploaded_file''))))"
  using assms by (simp add: json_intake_def)

lemma json_intake_binary:
  assumes "body \<noteq> JNull" and "\<not> truthy (get_prop body ''fileUrl'')"
    and "\<not> truthy (get_prop body ''fileBase64'')" and "truthy (get_prop body ''binaryData'')"
  shows "json_intake w body =
         (case Buffer_from w (get_prop (get_prop body ''binaryData'') ''data'') of
            Inl e \<Rightarrow> Responds 400 (obj [(''error'', JStr (js ''Invalid binary data''))])
          | Inr buffer \<Rightarrow>
              Intake buffer (or_else (get_prop body ''fileName'') (JStr (js ''n8n_upload''))))"
  using assms by (simp add: json_intake_def)

lemma json_intake_missing:
  assumes "body \<noteq> JNull" and "\<not> truthy (get_prop body ''fileUrl'')"
    and "\<not> truthy (get_prop body ''fileBase64'')" and "\<not> truthy (get_prop body ''binaryData'')"
  shows "json_intake w body =
         Responds 400 (obj [(''error'',
           JStr (js ''Missing file data. Provide fileUrl, fileBase64, or binaryData''))])"
  using assms by (simp add: json_intake_def)

lemma obj_not_null: "obj kvs \<noteq> JNull"
  by (simp add: obj_def)

text \<open>
  Claim C7, as amended. For a parsed body other than \<^verbatim>\<open>null\<close>, the dispatch tests
  \<^verbatim>\<open>fileUrl\<close>, then \<^verbatim>\<open>fileBase64\<close>, then \<^verbatim>\<open>binaryData\<close> for a truthy value; a key that is
  absent or whose value is \<^verbatim>\<open>null\<close>, \<^verbatim>\<open>false\<close>, \<^verbatim>\<open>0\<close> or the empty string is passed
  over. The first key with a truthy value alone decides: the outcome is that of the body
  that holds this key only (with \<^verbatim>\<open>fileName\<close>, which the last two transports read). When
  none of the three has a truthy value the outcome is the 400 response
  \<^verbatim>\<open>Missing file data\<close>, and that is what the handler sends.
\<close>

theorem first_truthy_key_decides:
  assumes "body \<noteq> JNull"
  shows "(truthy (get_prop body ''fileUrl'') \<longrightarrow>
            json_intake w body = json_intake w (obj [(''fileUrl'', get_prop body ''fileUrl'')])) \<and>
         (\<not> truthy (get_prop body ''fileUrl'') \<and> truthy (get_prop body ''fileBase64'') \<longrightarrow>
            json_intake w body =
              json_intake w (obj [(''fileBase64'', get_prop body ''fileBase64''),
                                  (''fileName'', get_prop body ''fileName'')])) \<and>
         (\<not> truthy (get_prop body ''fileUrl'') \<and> \<not> truthy (get_prop body ''fileBase64'') \<and>
          truthy (get_prop body ''binaryData'') \<longrightarrow>
            json_intake w body =
              json_intake w (obj [(''binaryData'', get_prop body ''binaryData''),
                                  (''fileName'', get_prop body ''fileName'')])) \<and>
         (\<not> truthy (get_prop body ''fileUrl'') \<and> \<not> truthy (get_prop body ''fileBase64'') \<and>
          \<not> truthy (get_prop body ''binaryData'') \<longrightarrow>
            json_intake w body =
              Responds 400 (obj [(''error'',
                JStr (js ''Missing file data. Provide fileUrl, fileBase64, or binaryData''))]) \<and>
            (json_body w = Parsed body \<and> \<not> REQUIRE_API_KEY w \<longrightarrow>
               fst (handler post_request w (\<lambda>ip. None)) =
                 (400, Some (obj [(''error'',
                    JStr (js ''Missing file data. Provide fileUrl, fileBase64, or binaryData''))]))))"
proof (intro conjI impI)
  assume "truthy (get_prop body ''fileUrl'')"
  then show "json_intake w body = json_intake w (obj [(''fileUrl'', get_prop body ''fileUrl'')])"
    using assms by (simp add: json_intake_url obj_not_null get_prop_obj split: sum.split)
next
  assume "\<not> truthy (get_prop body ''fileUrl'') \<and> truthy (get_prop body ''fileBase64'')"
  then show "json_intake w body =
      json_intake w (obj [(''fileBase64'', get_prop body ''fileBase64''),
                          (''fileName'', get_prop body ''fileName'')])"
    using assms by (simp add: json_intake_base64 obj_not_null get_prop_obj split: sum.split)
next
  assume "\<not> truthy (get_prop body ''fileUrl'') \<and> \<not> truthy (get_prop body ''fileBase64'') \<and>
          truthy (get_prop body ''binaryData'')"
  then show "json_intake w body =
      json_intake w (obj [(''binaryData'', get_prop body ''binaryData''),
                          (''fileName'', get_prop body ''fileName'')])"
    using assms by (simp add: json_intake_binary obj_not_null get_prop_obj split: sum.split)
next
  assume none: "\<not> truthy (get_prop body ''fileUrl'') \<and> \<not> truthy (get_prop body ''fileBase64'') \<and>
          \<not> truthy (get_prop body ''binaryData'')"
  then show missing: "json_intake w body =
      Responds 400 (obj [(''error'',
        JStr (js ''Missing file data. Provide fileUrl, fileBase64, or binaryData''))])"
    using assms by (simp add: json_intake_missing)
  assume "json_body w = Parsed body \<and> \<not> REQUIRE_API_KEY w"
  then show "fst (handler post_request w (\<lambda>ip. None)) =
      (400, Some (obj [(''error'',
         JStr (js ''Missing file data. Provide fileUrl, fileBase64, or binaryData''))]))"
    by (simp add: handler_post_json missing)
qed

text \<open>
  The theorem at four bodies: one with \<^verbatim>\<open>fileBase64\<close> and \<^verbatim>\<open>fileUrl\<close>, one with \<^verbatim>\<open>fileUrl\<close>
  null, \<^verbatim>\<open>binaryData\<close> and \<^verbatim>\<open>fileBase64\<close>, one with \<^verbatim>\<open>binaryData\<close> and an empty
  \<^verbatim>\<open>fileBase64\<close>, and one with a \<^verbatim>\<open>fileName\<close> only.
\<close>

theorem first_truthy_key_decides_witness:
  "obj [(''fileBase64'', JStr (js ''dGVzdA=='')), (''fileUrl'', JStr (js ''https://example.com/cv.txt''))] \<noteq> JNull \<and>
   truthy (get_prop (obj [(''fileBase64'', JStr (js ''dGVzdA=='')),
                          (''fileUrl'', JStr (js ''https://example.com/cv.txt''))]) ''fileUrl'') \<and>
   json_intake quiet_world (obj [(''fileBase64'', JStr (js ''dGVzdA=='')),
                                 (''fileUrl'', JStr (js ''https://example.com/cv.txt''))]) =
     json_intake quiet_world (obj [(''fileUrl'', JStr (js ''https://example.com/cv.txt''))]) \<and>
   \<not> truthy (get_prop (obj [(''fileUrl'', JNull), (''binaryData'', JBool True),
                            (''fileBase64'', JStr (js ''dGVzdA=='')), (''fileName'', JStr (js ''a.txt''))]) ''fileUrl'') \<and>
   truthy (get_prop (obj [(''fileUrl'', JNull), (''binaryData'', JBool True),
                          (''fileBase64'', JStr (js ''dGVzdA=='')), (''fileName'', JStr (js ''a.txt''))]) ''fileBase64'') \<and>
   json_intake quiet_world (obj [(''fileUrl'', JNull), (''binaryData'', JBool True),
                                 (''fileBase64'', JStr (js ''dGVzdA=='')), (''fileName'', JStr (js ''a.txt''))]) =
     json_intake quiet_world (obj [(''fileBase64'', JStr (js ''dGVzdA=='')), (''fileName'', JStr (js ''a.txt''))]) \<and>
   \<not> truthy (get_prop (obj [(''binaryData'', obj [(''data'', JArr [JNum 116])]), (''fileBase64'', JStr [])]) ''fileUrl'') \<and>
   \<not> truthy (get_prop (obj [(''binaryData'', obj [(''data'', JArr [JNum 116])]), (''fileBase64'', JStr [])]) ''fileBase64'') \<and>
   truthy (get_prop (obj [(''binaryData'', obj [(''data'', JArr [JNum 116])]), (''fileBase64'', JStr [])]) ''binaryData'') \<and>
   json_intake quiet_world (obj [(''binaryData'', obj [(''data'', JArr [JNum 116])]), (''fileBase64'', JStr [])]) =
     json_intake quiet_world (obj [(''binaryData'', obj [(''data'', JArr [JNum 116])]), (''fileName'', JUndefined)]) \<and>
   json_body (quiet_world\<lparr>json_body := Parsed (obj [(''fileName'', JStr (js ''a.txt''))])\<rparr>) =
     Parsed (obj [(''fileName'', JStr (js ''a.txt''))]) \<and>
   \<not> REQUIRE_API_KEY (quiet_world\<lparr>json_body := Parsed (obj [(''fileName'', JStr (js ''a.txt''))])\<rparr>) \<and>
   fst (handler post_request (quiet_world\<lparr>json_body := Parsed (obj [(''fileName'', JStr (js ''a.txt''))])\<rparr>) (\<lambda>ip. None)) =
     (400, Some (obj [(''error'', JStr (js ''Missing file data. Provide fileUrl, fileBase64, or binaryData''))]))"
proof -
  let ?b1 = "obj [(''fileBase64'', JStr (js ''dGVzdA=='')), (''fileUrl'', JStr (js ''https://example.com/cv.txt''))]"
  let ?b2 = "obj [(''fileUrl'', JNull), (''binaryData'', JBool True),
                  (''fileBase64'', JStr (js ''dGVzdA=='')), (''fileName'', JStr (js ''a.txt''))]"
  let ?b3 = "obj [(''binaryData'', obj [(''data'', JArr [JNum 116])]), (''fileBase64'', JStr [])]"
  let ?b4 = "obj [(''fileName'', JStr (js ''a.txt''))]"
  let ?w4 = "quiet_world\<lparr>json_body := Parsed ?b4\<rparr>"
  have nonempty: "js ''dGVzdA=='' \<noteq> []" "js ''https://example.com/cv.txt'' \<noteq> []"
    by (simp_all add: js_def)
  have w4: "json_body ?w4 = Parsed ?b4" "\<not> REQUIRE_API_KEY ?w4"
    by (simp_all add: quiet_world_def)
  show ?thesis
    using first_truthy_key_decides [OF obj_not_null, of "[(''fileBase64'', JStr (js ''dGVzdA=='')), (''fileUrl'', JStr (js ''https://example.com/cv.txt''))]" quiet_world]
      first_truthy_key_decides [OF obj_not_null, of "[(''fileUrl'', JNull), (''binaryData'', JBool True),
                  (''fileBase64'', JStr (js ''dGVzdA=='')), (''fileName'', JStr (js ''a.txt''))]" quiet_world]
      first_truthy_key_decides [OF obj_not_null, of "[(''binaryData'', obj [(''data'', JArr [JNum 116])]), (''fileBase64'', JStr [])]" quiet_world]
      first_truthy_key_decides [OF obj_not_null, of "[(''fileName'', JStr (js ''a.txt''))]" ?w4]
      w4 nonempty
    by (simp add: get_prop_obj obj_not_null truthy_obj)
qed

text \<open>
  Claim C7 as stated fails twice. A body with the keys \<^verbatim>\<open>fileUrl\<close> (the empty string) and
  \<^verbatim>\<open>fileBase64\<close> (the number 5) is answered by the base64 transport, not by the URL
  transport; a body whose only key is \<^verbatim>\<open>fileUrl\<close> with the value 0 is answered with
  \<^verbatim>\<open>Missing file data\<close>. And the body \<^verbatim>\<open>null\<close>, which has none of the three keys, makes the
  first property read throw: the handler answers 500, \<^verbatim>\<open>Internal server error\<close>.
\<close>

theorem present_key_without_truthy_value_is_skipped:
  "own_keys (obj [(''fileUrl'', JStr []), (''fileBase64'', JNum 5)]) = [js ''fileUrl'', js ''fileBase64''] \<and>
   json_intake quiet_world (obj [(''fileUrl'', JStr []), (''fileBase64'', JNum 5)]) =
     Responds 400 (obj [(''error'', JStr (js ''Invalid base64 encoding''))]) \<and>
   own_keys (obj [(''fileUrl'', JNum 0)]) = [js ''fileUrl''] \<and>
   json_intake quiet_world (obj [(''fileUrl'', JNum 0)]) =
     Responds 400 (obj [(''error'', JStr (js ''Missing file data. Provide fileUrl, fileBase64, or binaryData''))]) \<and>
   get_prop JNull ''fileUrl'' = JUndefined \<and>
   get_prop JNull ''fileBase64'' = JUndefined \<and>
   get_prop JNull ''binaryData'' = JUndefined \<and>
   json_intake quiet_world JNull =
     Throws (TypeError (js ''Cannot read properties of null (reading 'fileUrl')'')) \<and>
   fst (handler post_request (quiet_world\<lparr>json_body := Parsed JNull\<rparr>) (\<lambda>ip. None)) =
     (500, Some (obj [(''success'', JBool False),
                      (''error'', JStr (js ''Internal server error'')),
                      (''details'', JUndefined)]))"
proof -
  have w: "json_body (quiet_world\<lparr>json_body := Parsed JNull\<rparr>) = Parsed JNull"
    "REQUIRE_API_KEY (quiet_world\<lparr>json_body := Parsed JNull\<rparr>) = False"
    "development (quiet_world\<lparr>json_body := Parsed JNull\<rparr>) = False"
    by (simp_all add: quiet_world_def)
  have null: "json_intake (quiet_world\<lparr>json_body := Parsed JNull\<rparr>) JNull =
     Throws (TypeError (js ''Cannot read properties of null (reading 'fileUrl')''))"
    by (simp add: json_intake_def)
  have "fst (handler post_request (quiet_world\<lparr>json_body := Parsed JNull\<rparr>) (\<lambda>ip. None)) =
     (500, Some (obj [(''success'', JBool False),
                      (''error'', JStr (js ''Internal server error'')),
                      (''details'', JUndefined)]))"
    by (simp add: handler_post_json [OF w(1,2)] null w(3))
  then show ?thesis
    by (simp add: json_intake_def get_prop_obj own_keys_obj obj_not_null)
qed

text \<open>
  Claim C8. There is a \<^verbatim>\<open>fileBase64\<close> value that is no base64 encoding, the number 123, on
  which \<^verbatim>\<open>Buffer.from\<close> throws in every world: for the request that carries it the
  dispatch answers 400 with \<^verbatim>\<open>Invalid base64 encoding\<close>, and so does the handler; no buffer
  is classified.
\<close>

theorem invalid_base64_value_is_refused:
  "\<exists>v. truthy v \<and>
       (\<forall>w. \<exists>e. Buffer_from w v = Inl e) \<and>
       (\<forall>w. json_intake w (obj [(''fileBase64'', v)]) =
              Responds 400 (obj [(''error'', JStr (js ''Invalid base64 encoding''))])) \<and>
       (\<forall>w. fst (handler post_request
                     (w\<lparr>json_body := Parsed (obj [(''fileBase64'', v)]), REQUIRE_API_KEY := False\<rparr>)
                     (\<lambda>ip. None)) =
              (400, Some (obj [(''error'', JStr (js ''Invalid base64 encoding''))])))"
proof (intro exI [of _ "JNum 123"] conjI allI)
  show "truthy (JNum 123)"
    by simp
  show "\<exists>e. Buffer_from w (JNum 123) = Inl e" for w
    by simp
  show refused: "json_intake w (obj [(''fileBase64'', JNum 123)]) =
      Responds 400 (obj [(''error'', JStr (js ''Invalid base64 encoding''))])" for w
    by (simp add: json_intake_def get_prop_obj obj_not_null)
  show "fst (handler post_request
               (w\<lparr>json_body := Parsed (obj [(''fileBase64'', JNum 123)]), REQUIRE_API_KEY := False\<rparr>)
               (\<lambda>ip. None)) =
      (400, Some (obj [(''error'', JStr (js ''Invalid base64 encoding''))]))" for w
    by (simp add: handler_post_json refused)
qed

lemma base64_string_is_always_decoded:
  assumes "s \<noteq> []"
  shows "json_intake w (obj [(''fileBase64'', JStr s), (''fileName'', name)]) =
         Intake (string_bytes w) (or_else name (JStr (js ''uploaded_file'')))"
  using assms by (simp add: json_intake_def get_prop_obj obj_not_null)

section \<open>The bodies of the error responses\<close>

lemma rateLimit_full:
  "rateLimit post_request 1000 (\<lambda>ip. Some (replicate 100 1000)) =
   (Some (obj [(''error'', JStr (js ''Rate limit exceeded'')), (''retryAfter'', JNum 60)]),
    (\<lambda>ip. Some (replicate 100 1000)))"
  by (simp add: rateLimit_def RATE_LIMIT_MAX_REQUESTS_def RATE_LIMIT_WINDOW_MS_def)

text \<open>
  Claim C5 fails on the code, which here goes against its own documented response format.
  The 405 response to a \<^verbatim>\<open>GET\<close>, whatever the rest of the request, has the body
  \<^verbatim>\<open>{ error: "Method not allowed..." }\<close>: no \<^verbatim>\<open>success\<close>, no \<^verbatim>\<open>executionTime\<close>, and
  \<^verbatim>\<open>error\<close> is a string, not an object with a \<^verbatim>\<open>message\<close>. The 429, 401 and the intake's
  400 responses have the same shape, and the 500 response has \<^verbatim>\<open>success\<close> but neither
  \<^verbatim>\<open>executionTime\<close> nor an \<^verbatim>\<open>error\<close> object. Only the 400 response that follows a failure of
  \<^verbatim>\<open>processBuffer\<close> is the envelope (\<open>respond\<close>).
\<close>

theorem early_error_responses_have_no_envelope:
  "fst (handler (req\<lparr>http_method := js ''GET''\<rparr>) w rateLimitStore) =
     (405, Some (obj [(''error'', JStr (js ''Method not allowed. Only POST requests accepted.''))])) \<and>
   get_prop (obj [(''error'', JStr (js ''Method not allowed. Only POST requests accepted.''))]) ''success'' = JUndefined \<and>
   get_prop (obj [(''error'', JStr (js ''Method not allowed. Only POST requests accepted.''))]) ''executionTime'' = JUndefined \<and>
   get_prop (get_prop (obj [(''error'', JStr (js ''Method not allowed. Only POST requests accepted.''))]) ''error'') ''message'' = JUndefined \<and>
   fst (handler post_request quiet_world (\<lambda>ip. Some (replicate 100 1000))) =
     (429, Some (obj [(''error'', JStr (js ''Rate limit exceeded'')), (''retryAfter'', JNum 60)])) \<and>
   fst (handler post_request (quiet_world\<lparr>REQUIRE_API_KEY := True\<rparr>) (\<lambda>ip. None)) =
     (401, Some (obj [(''error'', JStr (js ''API key required''))])) \<and>
   fst (handler post_request quiet_world (\<lambda>ip. None)) =
     (400, Some (obj [(''error'', JStr (js ''Invalid JSON body''))])) \<and>
   fst (handler post_request (quiet_world\<lparr>json_body := Parsed JNull\<rparr>) (\<lambda>ip. None)) =
     (500, Some (obj [(''success'', JBool False),
                      (''error'', JStr (js ''Internal server error'')),
                      (''details'', JUndefined)]))"
proof -
  have m405: "fst (handler (req\<lparr>http_method := js ''GET''\<rparr>) w rateLimitStore) =
     (405, Some (obj [(''error'', JStr (js ''Method not allowed. Only POST requests accepted.''))]))"
    by (simp add: handler_def js_eq_iff)
  have m429: "fst (handler post_request quiet_world (\<lambda>ip. Some (replicate 100 1000))) =
     (429, Some (obj [(''error'', JStr (js ''Rate limit exceeded'')), (''retryAfter'', JNum 60)]))"
  proof -
    have "clock_rate quiet_world = 1000"
      by (simp add: quiet_world_def)
    then show ?thesis
      by (simp add: handler_def post_request_is_json rateLimit_full js_eq_iff)
  qed
  have m401: "fst (handler post_request (quiet_world\<lparr>REQUIRE_API_KEY := True\<rparr>) (\<lambda>ip. None)) =
     (401, Some (obj [(''error'', JStr (js ''API key required''))]))"
    by (simp add: handler_def post_request_is_json rateLimit_empty js_eq_iff authenticateAPIKey_def
        get_prop_obj quiet_world_def post_request_def)
  have m400: "fst (handler post_request quiet_world (\<lambda>ip. None)) =
     (400, Some (obj [(''error'', JStr (js ''Invalid JSON body''))]))"
    by (simp add: handler_def post_request_is_json rateLimit_empty js_eq_iff authenticate_not_required
        process_request_def intake_def quiet_world_def)
  have w: "json_body (quiet_world\<lparr>json_body := Parsed JNull\<rparr>) = Parsed JNull"
    "REQUIRE_API_KEY (quiet_world\<lparr>json_body := Parsed JNull\<rparr>) = False"
    "development (quiet_world\<lparr>json_body := Parsed JNull\<rparr>) = False"
    by (simp_all add: quiet_world_def)
  have m500: "fst (handler post_request (quiet_world\<lparr>json_body := Parsed JNull\<rparr>) (\<lambda>ip. None)) =
     (500, Some (obj [(''success'', JBool False),
                      (''error'', JStr (js ''Internal server error'')),
                      (''details'', JUndefined)]))"
    by (simp add: handler_post_json [OF w(1,2)] json_intake_def w(3))
  show ?thesis
    using m405 m429 m401 m400 m500 by (simp add: get_prop_obj)
qed

end
